theory Spec2Isabelle
  imports Main "HOL-Library.Multiset"
begin

section \<open>JavaScript values\<close>

text \<open>
  The routes keep their records as plain JavaScript objects that come straight from
  \<^verbatim>\<open>req.body\<close>: nothing checks a field's type at run time, so a record is a finite map
  from property names to JSON values, and a missing property reads as \<^verbatim>\<open>undefined\<close>
  (\<open>None\<close>). Numbers are the integers (the routes modelled here compute with no
  fraction); \<open>JNaN\<close> is the number \<^verbatim>\<open>NaN\<close>, which the code can compute and store.
\<close>

datatype json = JNull | JBool bool | JNum int | JNaN | JStr string | JArr "json list"
  | JObj "string \<Rightarrow> json option"

type_synonym obj = "string \<Rightarrow> json option"

text \<open>\<^verbatim>\<open>if (v)\<close>, \<^verbatim>\<open>!v\<close>, \<^verbatim>\<open>a || b\<close>: JavaScript's ToBoolean.\<close>

fun truthy :: "json option \<Rightarrow> bool" where
  "truthy None = False"
| "truthy (Some JNull) = False"
| "truthy (Some (JBool b)) = b"
| "truthy (Some (JNum n)) = (n \<noteq> 0)"
| "truthy (Some JNaN) = False"
| "truthy (Some (JStr s)) = (s \<noteq> [])"
| "truthy (Some (JArr xs)) = True"
| "truthy (Some (JObj m)) = True"

text \<open>\<^verbatim>\<open>!v\<close>.\<close>

definition falsy :: "json option \<Rightarrow> bool" where
  "falsy v = (\<not> truthy v)"

declare falsy_def [simp]

text \<open>\<^verbatim>\<open>a || b\<close> on values.\<close>

definition or_else :: "json option \<Rightarrow> json option \<Rightarrow> json option" where
  "or_else a b = (if truthy a then a else b)"

text \<open>
  \<^verbatim>\<open>a === b\<close>. Primitives compare by value and \<^verbatim>\<open>NaN\<close> equals nothing. Arrays and
  objects compare by reference: every use in the routes compares a stored value with
  one parsed from the current request, and these are never the same reference.
\<close>

fun strict_eq :: "json option \<Rightarrow> json option \<Rightarrow> bool" where
  "strict_eq None None = True"
| "strict_eq (Some JNull) (Some JNull) = True"
| "strict_eq (Some (JBool a)) (Some (JBool b)) = (a = b)"
| "strict_eq (Some (JNum a)) (Some (JNum b)) = (a = b)"
| "strict_eq (Some (JStr a)) (Some (JStr b)) = (a = b)"
| "strict_eq _ _ = False"

text \<open>\<^verbatim>\<open>Array.prototype.find\<close> is \<^const>\<open>find\<close>; \<^verbatim>\<open>findIndex\<close> returns \<open>None\<close> for -1.\<close>

fun findIndex :: "('a \<Rightarrow> bool) \<Rightarrow> 'a list \<Rightarrow> nat option" where
  "findIndex P [] = None"
| "findIndex P (x # xs) =
     (if P x then Some 0 else map_option Suc (findIndex P xs))"

text \<open>\<^verbatim>\<open>xs.splice(i, 1)\<close>: the list without its element at \<open>i\<close>.\<close>

definition splice1 :: "nat \<Rightarrow> 'a list \<Rightarrow> 'a list" where
  "splice1 i xs = take i xs @ drop (Suc i) xs"

subsection \<open>Numbers and dates as text\<close>

text \<open>\<^verbatim>\<open>Date.now().toString()\<close>: a natural number in decimal.\<close>

function string_of_nat :: "nat \<Rightarrow> string" where
  "string_of_nat n =
     (if n < 10 then [''0123456789'' ! n]
      else string_of_nat (n div 10) @ [''0123456789'' ! (n mod 10)])"
  by pat_completeness auto
termination
  by (relation "measure id") auto

declare string_of_nat.simps [simp del]

text \<open>Decimal digits padded with zeros on the left to a width.\<close>

definition pad :: "nat \<Rightarrow> nat \<Rightarrow> string" where
  "pad w n = replicate (w - length (string_of_nat n)) (CHR ''0'') @ string_of_nat n"

text \<open>
  The civil date of a day number counted from 1970-01-01 (the proleptic Gregorian
  calendar of ECMAScript's time values), as (year, month, day).
\<close>

definition civil_from_days :: "nat \<Rightarrow> nat \<times> nat \<times> nat" where
  "civil_from_days days =
     (let z = days + 719468;
          era = z div 146097;
          doe = z mod 146097;
          yoe = (doe + doe div 36524 - doe div 1460 - doe div 146096) div 365;
          doy = doe + yoe div 100 - (365 * yoe + yoe div 4);
          mp = (5 * doy + 2) div 153;
          d = doy + 1 - (153 * mp + 2) div 5;
          m = (if mp < 10 then mp + 3 else mp - 9);
          y = yoe + era * 400
      in (if m \<le> 2 then y + 1 else y, m, d))"

text \<open>
  \<^verbatim>\<open>new Date(t).toISOString()\<close> for a time value \<open>t\<close> in milliseconds since the epoch,
  \<^verbatim>\<open>YYYY-MM-DDTHH:mm:ss.sssZ\<close>; years past 9999 are written with a sign and six digits.
\<close>

definition toISOString :: "nat \<Rightarrow> string" where
  "toISOString t =
     (let ms = t mod 1000;
          s = (t div 1000) mod 60;
          mi = (t div 60000) mod 60;
          h = (t div 3600000) mod 24;
          (y, m, d) = civil_from_days (t div 86400000)
      in (if y \<le> 9999 then pad 4 y else CHR ''+'' # pad 6 y) @ ''-'' @ pad 2 m @ ''-'' @ pad 2 d
         @ ''T'' @ pad 2 h @ '':'' @ pad 2 mi @ '':'' @ pad 2 s @ ''.'' @ pad 3 ms @ ''Z'')"

text \<open>A signed integer in decimal, and the string form of a value (JavaScript's ToString):
  an array joins its elements with commas, \<^verbatim>\<open>null\<close> elements as the empty string.\<close>

definition string_of_int :: "int \<Rightarrow> string" where
  "string_of_int i = (if i < 0 then CHR ''-'' # string_of_nat (nat (- i)) else string_of_nat (nat i))"

fun ToString :: "json \<Rightarrow> string" and join :: "json list \<Rightarrow> string" where
  "ToString JNull = ''null''"
| "ToString (JBool b) = (if b then ''true'' else ''false'')"
| "ToString (JNum n) = string_of_int n"
| "ToString JNaN = ''NaN''"
| "ToString (JStr s) = s"
| "ToString (JArr xs) = join xs"
| "ToString (JObj m) = ''[object Object]''"
| "join [] = []"
| "join [x] = (case x of JNull \<Rightarrow> [] | _ \<Rightarrow> ToString x)"
| "join (x # y # ys) = (case x of JNull \<Rightarrow> [] | _ \<Rightarrow> ToString x) @ '','' @ join (y # ys)"

subsection \<open>Dates\<close>

text \<open>
  \<^verbatim>\<open>new Date(v)\<close> as a time value in milliseconds, \<open>None\<close> for an Invalid Date (whose
  \<^verbatim>\<open>getTime()\<close> is \<^verbatim>\<open>NaN\<close>). How a string is read is the JavaScript engine's business
  (\<^verbatim>\<open>Date.parse\<close> accepts the ISO format and whatever else the engine chooses), so the
  routes take the parser as their first argument \<open>parse\<close>. Everything else follows
  ECMAScript: \<^verbatim>\<open>undefined\<close> gives an Invalid Date, an array or object is read through its
  string form, any other value through its number, clipped to the range of time values.
\<close>

definition TimeClip :: "int \<Rightarrow> int option" where
  "TimeClip t = (if \<bar>t\<bar> \<le> 8640000000000000 then Some t else None)"

fun new_Date :: "(string \<Rightarrow> int option) \<Rightarrow> json option \<Rightarrow> int option" where
  "new_Date parse None = None"
| "new_Date parse (Some JNull) = Some 0"
| "new_Date parse (Some (JBool b)) = Some (if b then 1 else 0)"
| "new_Date parse (Some (JNum n)) = TimeClip n"
| "new_Date parse (Some JNaN) = None"
| "new_Date parse (Some (JStr s)) = parse s"
| "new_Date parse (Some (JArr xs)) = parse (ToString (JArr xs))"
| "new_Date parse (Some (JObj m)) = parse (ToString (JObj m))"

text \<open>\<^verbatim>\<open>a >= b\<close> and \<^verbatim>\<open>a < b\<close> on two dates: false as soon as one of them is invalid.\<close>

fun date_ge :: "int option \<Rightarrow> int option \<Rightarrow> bool" where
  "date_ge (Some a) (Some b) = (a \<ge> b)"
| "date_ge _ _ = False"

fun date_lt :: "int option \<Rightarrow> int option \<Rightarrow> bool" where
  "date_lt (Some a) (Some b) = (a < b)"
| "date_lt _ _ = False"

text \<open>\<^verbatim>\<open>x - y\<close> on two numbers that may be \<^verbatim>\<open>NaN\<close>.\<close>

fun num_minus :: "int option \<Rightarrow> int option \<Rightarrow> int option" where
  "num_minus (Some a) (Some b) = Some (a - b)"
| "num_minus _ _ = None"

text \<open>
  A reference parser for evaluating the routes on concrete requests: the two forms of
  ECMAScript's date-time format that \<^verbatim>\<open>toISOString\<close> and the mock data use,
  \<^verbatim>\<open>YYYY-MM-DDTHH:mm:ssZ\<close> and \<^verbatim>\<open>YYYY-MM-DDTHH:mm:ss.sssZ\<close>. Every other string is
  an Invalid Date here. Engines read more forms than these two, so this parser stands for
  the engine only on strings of the two forms and on strings without a digit, which no
  engine reads as a date; the theorems about every parser do not depend on it.
\<close>

definition in_range :: "char \<Rightarrow> char \<Rightarrow> char \<Rightarrow> bool" where
  "in_range lo hi c = ((of_char lo :: nat) \<le> of_char c \<and> (of_char c :: nat) \<le> of_char hi)"

definition is_digit :: "char \<Rightarrow> bool" where
  "is_digit c = in_range (CHR ''0'') (CHR ''9'') c"

fun digits_val :: "string \<Rightarrow> nat option" where
  "digits_val [] = Some 0"
| "digits_val (c # cs) =
     (if is_digit c
      then map_option (\<lambda>r. (of_char c - 48) * 10 ^ length cs + r) (digits_val cs)
      else None)"

definition days_in_month :: "nat \<Rightarrow> nat \<Rightarrow> nat" where
  "days_in_month y m =
     (if m = 2 then (if y mod 400 = 0 \<or> y mod 4 = 0 \<and> y mod 100 \<noteq> 0 then 29 else 28)
      else if m \<in> {4, 6, 9, 11} then 30 else 31)"

definition days_from_civil :: "nat \<Rightarrow> nat \<Rightarrow> nat \<Rightarrow> int" where
  "days_from_civil y m d =
     (let y' = int y - (if m \<le> 2 then 1 else 0);
          era = y' div 400;
          yoe = y' - era * 400;
          doy = (153 * (if m > 2 then int m - 3 else int m + 9) + 2) div 5 + int d - 1;
          doe = yoe * 365 + yoe div 4 - yoe div 100 + doy
      in era * 146097 + doe - 719468)"

definition make_time :: "nat option \<Rightarrow> nat option \<Rightarrow> nat option \<Rightarrow> nat option \<Rightarrow> nat option
    \<Rightarrow> nat option \<Rightarrow> nat option \<Rightarrow> int option" where
  "make_time yo mo dyo ho mio so mso =
     (case (yo, mo, dyo, ho, mio, so, mso) of
        (Some y, Some m, Some d, Some h, Some mi, Some s, Some ms) \<Rightarrow>
          (if 1 \<le> m \<and> m \<le> 12 \<and> 1 \<le> d \<and> d \<le> days_in_month y m
              \<and> (h \<le> 23 \<or> h = 24 \<and> mi = 0 \<and> s = 0 \<and> ms = 0) \<and> mi \<le> 59 \<and> s \<le> 59
           then Some (days_from_civil y m d * 86400000
                      + int (h * 3600000 + mi * 60000 + s * 1000 + ms))
           else None)
      | _ \<Rightarrow> None)"

definition Date_parse :: "string \<Rightarrow> int option" where
  "Date_parse s =
     (if (length s = 20 \<or> length s = 24 \<and> s ! 19 = CHR ''.'')
         \<and> s ! 4 = CHR ''-'' \<and> s ! 7 = CHR ''-'' \<and> s ! 10 = CHR ''T''
         \<and> s ! 13 = CHR '':'' \<and> s ! 16 = CHR '':'' \<and> last s = CHR ''Z''
      then make_time (digits_val (take 4 s)) (digits_val (take 2 (drop 5 s)))
             (digits_val (take 2 (drop 8 s))) (digits_val (take 2 (drop 11 s)))
             (digits_val (take 2 (drop 14 s))) (digits_val (take 2 (drop 17 s)))
             (if length s = 20 then Some 0 else digits_val (take 3 (drop 20 s)))
      else None)"

subsection \<open>Arrays and strings\<close>

text \<open>
  \<^verbatim>\<open>xs.sort(cmp)\<close>: the stable sort, an element going after another exactly when the
  comparator's result for the pair is positive; a \<^verbatim>\<open>NaN\<close> result counts as zero. Engines
  agree on the order only for a consistent comparator; the result is a permutation
  in every case.
\<close>

fun insort_by :: "('a \<Rightarrow> 'a \<Rightarrow> int option) \<Rightarrow> 'a \<Rightarrow> 'a list \<Rightarrow> 'a list" where
  "insort_by cmp x [] = [x]"
| "insort_by cmp x (y # ys) =
     (case cmp x y of
        Some v \<Rightarrow> (if v > 0 then y # insort_by cmp x ys else x # y # ys)
      | None \<Rightarrow> x # y # ys)"

definition sort_by :: "('a \<Rightarrow> 'a \<Rightarrow> int option) \<Rightarrow> 'a list \<Rightarrow> 'a list" where
  "sort_by cmp xs = foldr (insort_by cmp) xs []"

text \<open>\<^verbatim>\<open>parseInt(s)\<close>: leading white space, a sign, an optional \<^verbatim>\<open>0x\<close>, then the longest
  run of digits of the radix; \<open>None\<close> is \<^verbatim>\<open>NaN\<close>.\<close>

definition hex_val :: "char \<Rightarrow> nat option" where
  "hex_val c =
     (if is_digit c then Some (of_char c - 48)
      else if in_range (CHR ''a'') (CHR ''f'') c then Some (of_char c - 87)
      else if in_range (CHR ''A'') (CHR ''F'') c then Some (of_char c - 55)
      else None)"

definition parse_digits :: "nat \<Rightarrow> string \<Rightarrow> int option" where
  "parse_digits radix s =
     (let ds = takeWhile (\<lambda>c. case hex_val c of Some v \<Rightarrow> v < radix | None \<Rightarrow> False) s
      in if ds = [] then None
         else Some (foldl (\<lambda>acc c. case hex_val c of None \<Rightarrow> acc
                                      | Some v \<Rightarrow> acc * int radix + int v) 0 ds))"

definition parseInt :: "string \<Rightarrow> int option" where
  "parseInt s =
     (let t = dropWhile (\<lambda>c. c \<in> set [CHR '' '', CHR 0x09, CHR 0x0A, CHR 0x0B, CHR 0x0C, CHR 0x0D]) s;
          neg = (t \<noteq> [] \<and> hd t = CHR ''-'');
          u = (if t \<noteq> [] \<and> (hd t = CHR ''-'' \<or> hd t = CHR ''+'') then tl t else t);
          r = (if take 2 u = ''0x'' \<or> take 2 u = ''0X''
               then parse_digits 16 (drop 2 u) else parse_digits 10 u)
      in map_option (\<lambda>v. if neg then - v else v) r)"

text \<open>\<^verbatim>\<open>xs.slice(0, end)\<close>: a \<^verbatim>\<open>NaN\<close> end is 0, a negative end counts from the back.\<close>

definition slice0 :: "int option \<Rightarrow> 'a list \<Rightarrow> 'a list" where
  "slice0 e xs =
     (case e of
        None \<Rightarrow> []
      | Some k \<Rightarrow> (if k < 0 then take (nat (int (length xs) + k)) xs else take (nat k) xs))"

text \<open>\<^verbatim>\<open>s.toLowerCase()\<close> on the ASCII letters, and \<^verbatim>\<open>s.includes(t)\<close>.\<close>

definition toLowerCase :: "string \<Rightarrow> string" where
  "toLowerCase s =
     map (\<lambda>c. if in_range (CHR ''A'') (CHR ''Z'') c then char_of (of_char c + (32::nat)) else c) s"

fun str_includes :: "string \<Rightarrow> string \<Rightarrow> bool" where
  "str_includes [] t = (t = [])"
| "str_includes (c # cs) t = (take (length t) (c # cs) = t \<or> str_includes cs t)"

section \<open>Errors and responses\<close>

text \<open>
  \<^verbatim>\<open>ApiError\<close> of errorHandler.ts: a JavaScript \<^verbatim>\<open>Error\<close> with the optional fields the
  middleware reads. The stack is the text V8 records when the error is made; the model
  keeps its first line (the name and the message) and leaves the call frames out.
\<close>

record ApiError =
  err_name :: string
  err_message :: string
  err_stack :: string
  err_statusCode :: "nat option"
  err_code :: "json option"
  err_details :: "json option"

text \<open>What a handler sends: \<^verbatim>\<open>res.status(n).json(v)\<close> (\<^verbatim>\<open>res.json(v)\<close> sends status 200).\<close>

record response =
  res_status :: nat
  res_json :: json

text \<open>\<^verbatim>\<open>createError(message, statusCode = 500, code?, details?)\<close>.\<close>

definition createError :: "string \<Rightarrow> nat option \<Rightarrow> json option \<Rightarrow> json option \<Rightarrow> ApiError" where
  "createError message statusCode code details =
     \<lparr>err_name = ''Error'', err_message = message, err_stack = ''Error: '' @ message,
      err_statusCode = Some (case statusCode of None \<Rightarrow> 500 | Some n \<Rightarrow> n),
      err_code = (if truthy code then code else None),
      err_details = details\<rparr>"

text \<open>The three-argument calls of the routes: \<^verbatim>\<open>createError(message, status, 'CODE')\<close>.\<close>

definition apiError :: "string \<Rightarrow> nat \<Rightarrow> string \<Rightarrow> ApiError" where
  "apiError message statusCode code = createError message (Some statusCode) (Some (JStr code)) None"

text \<open>A \<^verbatim>\<open>TypeError\<close> thrown by the engine: no status code, no code.\<close>

definition TypeError :: "string \<Rightarrow> ApiError" where
  "TypeError message =
     \<lparr>err_name = ''TypeError'', err_message = message, err_stack = ''TypeError: '' @ message,
      err_statusCode = None, err_code = None, err_details = None\<rparr>"

text \<open>
  \<^verbatim>\<open>errorHandler(error, req, res, next)\<close>, with \<^verbatim>\<open>process.env.NODE_ENV\<close>, the clock and
  \<^verbatim>\<open>req.url\<close> as arguments. The three locals are computed first, then overridden by the
  error's name, as in the source.
\<close>

definition errorHandler :: "string option \<Rightarrow> nat \<Rightarrow> string \<Rightarrow> ApiError \<Rightarrow> response" where
  "errorHandler NODE_ENV now url error =
     (let statusCode0 = (case err_statusCode error of None \<Rightarrow> 500
                         | Some n \<Rightarrow> if n = 0 then 500 else n);
          message0 = (if err_message error = [] then ''Internal server error'' else err_message error);
          code0 = (case err_code error of
                     None \<Rightarrow> JStr ''INTERNAL_ERROR''
                   | Some c \<Rightarrow> if truthy (Some c) then c else JStr ''INTERNAL_ERROR'');
          (statusCode, message1, code) =
            (if err_name error = ''ValidationError'' then (400, ''Validation error'', JStr ''VALIDATION_ERROR'')
             else if err_name error = ''CastError'' then (400, ''Invalid ID format'', JStr ''INVALID_ID'')
             else if err_name error = ''MongoError'' \<and> strict_eq (err_code error) (Some (JNum 11000))
               then (409, ''Duplicate entry'', JStr ''DUPLICATE_ENTRY'')
             else if err_name error = ''JsonWebTokenError'' then (401, ''Invalid token'', JStr ''INVALID_TOKEN'')
             else if err_name error = ''TokenExpiredError'' then (401, ''Token expired'', JStr ''TOKEN_EXPIRED'')
             else (statusCode0, message0, code0));
          message = (if NODE_ENV = Some ''production'' \<and> statusCode = 500
                     then ''Internal server error'' else message1);
          err = [''code'' \<mapsto> code, ''message'' \<mapsto> JStr message];
          err' = (if NODE_ENV = Some ''development''
                  then (err(''stack'' \<mapsto> JStr (err_stack error)))(''details'' := err_details error)
                  else err)
      in \<lparr>res_status = statusCode,
          res_json = JObj [''success'' \<mapsto> JBool False, ''error'' \<mapsto> JObj err',
                           ''timestamp'' \<mapsto> JStr (toISOString now), ''path'' \<mapsto> JStr url]\<rparr>)"

text \<open>
  \<^verbatim>\<open>asyncHandler(fn)\<close>: an error thrown by the route's function goes to \<^verbatim>\<open>next\<close>, which
  Express hands to \<^verbatim>\<open>errorHandler\<close>, the only error middleware the application
  registers. A route's function returns the error it throws (\<open>Inl\<close>) or the response
  it sends, and the store as it leaves it.
\<close>

definition asyncHandler :: "string option \<Rightarrow> nat \<Rightarrow> string \<Rightarrow> (ApiError + response) \<times> 's \<Rightarrow> response \<times> 's" where
  "asyncHandler NODE_ENV now url r =
     (case fst r of Inl error \<Rightarrow> (errorHandler NODE_ENV now url error, snd r)
      | Inr res \<Rightarrow> (res, snd r))"

section \<open>Cases\<close>

text \<open>The module's array \<^verbatim>\<open>mockCases\<close> as the server starts.\<close>

definition mockCases :: "obj list" where
  "mockCases =
     [[''id'' \<mapsto> JStr ''1'',
       ''case_number'' \<mapsto> JStr ''2024-CV-001234'',
       ''title'' \<mapsto> JStr ''Smith vs. Johnson Contract Dispute'',
       ''plaintiff'' \<mapsto> JStr ''John Smith'',
       ''defendant'' \<mapsto> JStr ''Jane Johnson'',
       ''jurisdiction'' \<mapsto> JStr ''Superior Court of California'',
       ''status'' \<mapsto> JStr ''active'',
       ''case_type'' \<mapsto> JStr ''civil'',
       ''priority'' \<mapsto> JStr ''medium'',
       ''tags'' \<mapsto> JArr [JStr ''contract'', JStr ''business''],
       ''next_hearing'' \<mapsto> JStr ''2024-02-15T10:00:00Z'',
       ''summary'' \<mapsto> JStr ''Contract dispute regarding software development agreement'',
       ''created_date'' \<mapsto> JStr ''2024-01-15T10:00:00Z'',
       ''updated_date'' \<mapsto> JStr ''2024-01-20T14:30:00Z'',
       ''user_id'' \<mapsto> JStr ''1''],
      [''id'' \<mapsto> JStr ''2'',
       ''case_number'' \<mapsto> JStr ''2024-CR-005678'',
       ''title'' \<mapsto> JStr ''State vs. Williams DUI Case'',
       ''plaintiff'' \<mapsto> JStr ''State of California'',
       ''defendant'' \<mapsto> JStr ''Robert Williams'',
       ''jurisdiction'' \<mapsto> JStr ''Municipal Court'',
       ''status'' \<mapsto> JStr ''pending'',
       ''case_type'' \<mapsto> JStr ''criminal'',
       ''priority'' \<mapsto> JStr ''high'',
       ''tags'' \<mapsto> JArr [JStr ''dui'', JStr ''criminal''],
       ''next_hearing'' \<mapsto> JStr ''2024-02-10T09:00:00Z'',
       ''summary'' \<mapsto> JStr ''DUI case with blood alcohol level of 0.12'',
       ''created_date'' \<mapsto> JStr ''2024-01-10T08:00:00Z'',
       ''updated_date'' \<mapsto> JStr ''2024-01-18T16:45:00Z'',
       ''user_id'' \<mapsto> JStr ''1'']]"

text \<open>
  The search filter of \<^verbatim>\<open>GET /api/cases\<close>:
  \<^verbatim>\<open>c.f1?.toLowerCase().includes(t) || c.f2?.toLowerCase().includes(t) || ...\<close>.
  A missing or \<^verbatim>\<open>null\<close> field gives \<^verbatim>\<open>undefined\<close> and the next field is tried; a value
  that is no string has no \<^verbatim>\<open>toLowerCase\<close>, and calling it throws.
\<close>

fun search_match :: "string \<Rightarrow> obj \<Rightarrow> string list \<Rightarrow> ApiError + bool" where
  "search_match needle c [] = Inr False"
| "search_match needle c (f # fs) =
     (case c f of
        None \<Rightarrow> search_match needle c fs
      | Some JNull \<Rightarrow> search_match needle c fs
      | Some (JStr s) \<Rightarrow>
          (if str_includes (toLowerCase s) needle then Inr True else search_match needle c fs)
      | Some _ \<Rightarrow> Inl (TypeError (''c.'' @ f @ ''?.toLowerCase is not a function'')))"

text \<open>\<^verbatim>\<open>xs.filter(p)\<close> for a callback that may throw: the first throw ends the call.\<close>

fun filter_try :: "('a \<Rightarrow> ApiError + bool) \<Rightarrow> 'a list \<Rightarrow> ApiError + 'a list" where
  "filter_try p [] = Inr []"
| "filter_try p (x # xs) =
     (case p x of
        Inl e \<Rightarrow> Inl e
      | Inr b \<Rightarrow> (case filter_try p xs of
                   Inl e \<Rightarrow> Inl e
                 | Inr ys \<Rightarrow> Inr (if b then x # ys else ys)))"

text \<open>
  \<^verbatim>\<open>GET /api/cases\<close>. \<open>query\<close> is \<^verbatim>\<open>req.query\<close>; \<^verbatim>\<open>sort\<close> defaults to
  \<^verbatim>\<open>'-updated_date'\<close> when the query has none.
\<close>

definition cases_get :: "(string \<Rightarrow> int option) \<Rightarrow> obj \<Rightarrow> obj list \<Rightarrow> ApiError + response" where
  "cases_get parse query cases0 =
     (let sort = (case query ''sort'' of None \<Rightarrow> Some (JStr ''-updated_date'') | Some v \<Rightarrow> Some v);
          limit = query ''limit'';
          status = query ''status'';
          case_type = query ''case_type'';
          priority = query ''priority'';
          search = query ''search'';
          cases1 = (if truthy status \<and> \<not> strict_eq status (Some (JStr ''all''))
                    then filter (\<lambda>c. strict_eq (c ''status'') status) cases0 else cases0);
          cases2 = (if truthy case_type \<and> \<not> strict_eq case_type (Some (JStr ''all''))
                    then filter (\<lambda>c. strict_eq (c ''case_type'') case_type) cases1 else cases1);
          cases3 = (if truthy priority \<and> \<not> strict_eq priority (Some (JStr ''all''))
                    then filter (\<lambda>c. strict_eq (c ''priority'') priority) cases2 else cases2);
          searched =
            (if truthy search
             then (case search of
                     Some (JStr s) \<Rightarrow>
                       filter_try (\<lambda>c. search_match (toLowerCase s) c
                          [''case_number'', ''title'', ''plaintiff'', ''defendant'']) cases3
                   | _ \<Rightarrow> Inl (TypeError ''search.toLowerCase is not a function''))
             else Inr cases3)
      in case searched of
           Inl e \<Rightarrow> Inl e
         | Inr cases4 \<Rightarrow>
             (let cases5 =
                    (if strict_eq sort (Some (JStr ''-updated_date''))
                     then sort_by (\<lambda>a b. num_minus (new_Date parse (b ''updated_date''))
                                                   (new_Date parse (a ''updated_date''))) cases4
                     else if strict_eq sort (Some (JStr ''updated_date''))
                     then sort_by (\<lambda>a b. num_minus (new_Date parse (a ''updated_date''))
                                                   (new_Date parse (b ''updated_date''))) cases4
                     else cases4);
                  cases6 = (case limit of
                              None \<Rightarrow> cases5
                            | Some l \<Rightarrow> if truthy (Some l) then slice0 (parseInt (ToString l)) cases5
                                        else cases5)
              in Inr \<lparr>res_status = 200,
                      res_json = JObj [''success'' \<mapsto> JBool True,
                                       ''data'' \<mapsto> JArr (map JObj cases6),
                                       ''total'' \<mapsto> JNum (int (length cases6))]\<rparr>))"

text \<open>\<^verbatim>\<open>GET /api/cases/:id\<close>; \<open>id'\<close> is \<^verbatim>\<open>req.params.id\<close>.\<close>

definition cases_get_id :: "string \<Rightarrow> obj list \<Rightarrow> ApiError + response" where
  "cases_get_id id' cases0 =
     (case find (\<lambda>c. strict_eq (c ''id'') (Some (JStr id'))) cases0 of
        None \<Rightarrow> Inl (apiError ''Case not found'' 404 ''CASE_NOT_FOUND'')
      | Some case_item \<Rightarrow>
          Inr \<lparr>res_status = 200,
               res_json = JObj [''success'' \<mapsto> JBool True, ''data'' \<mapsto> JObj case_item]\<rparr>)"

text \<open>
  \<^verbatim>\<open>POST /api/cases\<close>. \<open>now\<close> is the clock (\<^verbatim>\<open>Date.now()\<close> and \<^verbatim>\<open>new Date()\<close>, read
  within the same millisecond), \<open>user_id\<close> is \<^verbatim>\<open>req.user?.id\<close>, \<open>caseData\<close> is
  \<^verbatim>\<open>req.body\<close>. The result is the error or response, and \<^verbatim>\<open>mockCases\<close> afterwards.
\<close>

definition cases_post :: "nat \<Rightarrow> json option \<Rightarrow> obj \<Rightarrow> obj list \<Rightarrow> (ApiError + response) \<times> obj list" where
  "cases_post now user_id caseData cases0 =
     (if falsy (caseData ''case_number'') \<or> falsy (caseData ''title'')
      then (Inl (apiError ''Case number and title are required'' 400 ''MISSING_REQUIRED_FIELDS''), cases0)
      else (case find (\<lambda>c. strict_eq (c ''case_number'') (caseData ''case_number'')) cases0 of
              Some existingCase \<Rightarrow>
                (Inl (apiError ''Case number already exists'' 409 ''DUPLICATE_CASE_NUMBER''), cases0)
            | None \<Rightarrow>
                (let newCase = (caseData(''id'' \<mapsto> JStr (string_of_nat now),
                                  ''created_date'' \<mapsto> JStr (toISOString now),
                                  ''updated_date'' \<mapsto> JStr (toISOString now)))
                                 (''user_id'' := or_else user_id (Some (JStr ''1'')))
                 in (Inr \<lparr>res_status = 201,
                          res_json = JObj [''success'' \<mapsto> JBool True, ''data'' \<mapsto> JObj newCase,
                                           ''message'' \<mapsto> JStr ''Case created successfully'']\<rparr>,
                     cases0 @ [newCase]))))"

text \<open>\<^verbatim>\<open>PUT /api/cases/:id\<close>: the stored case, overwritten by every property of the body.\<close>

definition cases_put :: "nat \<Rightarrow> string \<Rightarrow> obj \<Rightarrow> obj list \<Rightarrow> (ApiError + response) \<times> obj list" where
  "cases_put now id' updates cases0 =
     (case findIndex (\<lambda>c. strict_eq (c ''id'') (Some (JStr id'))) cases0 of
        None \<Rightarrow> (Inl (apiError ''Case not found'' 404 ''CASE_NOT_FOUND''), cases0)
      | Some caseIndex \<Rightarrow>
          (let updated = (cases0 ! caseIndex ++ updates)(''updated_date'' \<mapsto> JStr (toISOString now))
           in (Inr \<lparr>res_status = 200,
                    res_json = JObj [''success'' \<mapsto> JBool True, ''data'' \<mapsto> JObj updated,
                                     ''message'' \<mapsto> JStr ''Case updated successfully'']\<rparr>,
               cases0[caseIndex := updated])))"

text \<open>\<^verbatim>\<open>DELETE /api/cases/:id\<close>.\<close>

definition cases_delete :: "string \<Rightarrow> obj list \<Rightarrow> (ApiError + response) \<times> obj list" where
  "cases_delete id' cases0 =
     (case findIndex (\<lambda>c. strict_eq (c ''id'') (Some (JStr id'))) cases0 of
        None \<Rightarrow> (Inl (apiError ''Case not found'' 404 ''CASE_NOT_FOUND''), cases0)
      | Some caseIndex \<Rightarrow>
          (Inr \<lparr>res_status = 200,
                res_json = JObj [''success'' \<mapsto> JBool True,
                                 ''message'' \<mapsto> JStr ''Case deleted successfully'']\<rparr>,
           splice1 caseIndex cases0))"

section \<open>Calendar events\<close>

definition mockEvents :: "obj list" where
  "mockEvents =
     [[''id'' \<mapsto> JStr ''1'',
       ''case_id'' \<mapsto> JStr ''1'',
       ''title'' \<mapsto> JStr ''Contract Dispute Hearing'',
       ''description'' \<mapsto> JStr ''Initial hearing for Smith vs. Johnson contract dispute'',
       ''start_time'' \<mapsto> JStr ''2024-02-15T10:00:00Z'',
       ''end_time'' \<mapsto> JStr ''2024-02-15T11:00:00Z'',
       ''location'' \<mapsto> JStr ''Superior Court of California, Room 101'',
       ''event_type'' \<mapsto> JStr ''hearing'',
       ''priority'' \<mapsto> JStr ''high'',
       ''status'' \<mapsto> JStr ''scheduled'',
       ''attendees'' \<mapsto> JArr
          [JObj [''name'' \<mapsto> JStr ''John Smith'', ''email'' \<mapsto> JStr ''john.smith@email.com'',
                 ''role'' \<mapsto> JStr ''client'', ''required'' \<mapsto> JBool True],
           JObj [''name'' \<mapsto> JStr ''Judge Williams'', ''role'' \<mapsto> JStr ''judge'',
                 ''required'' \<mapsto> JBool True]],
       ''reminders'' \<mapsto> JArr
          [JObj [''time_before'' \<mapsto> JNum 1440, ''method'' \<mapsto> JStr ''email'', ''sent'' \<mapsto> JBool False],
           JObj [''time_before'' \<mapsto> JNum 60, ''method'' \<mapsto> JStr ''notification'',
                 ''sent'' \<mapsto> JBool False]],
       ''notes'' \<mapsto> JStr ''Bring all contract documents and evidence'',
       ''documents'' \<mapsto> JArr [JStr ''1''],
       ''created_date'' \<mapsto> JStr ''2024-01-15T10:00:00Z'',
       ''updated_date'' \<mapsto> JStr ''2024-01-15T10:00:00Z'',
       ''user_id'' \<mapsto> JStr ''1''],
      [''id'' \<mapsto> JStr ''2'',
       ''case_id'' \<mapsto> JStr ''2'',
       ''title'' \<mapsto> JStr ''Client Consultation - Williams DUI'',
       ''description'' \<mapsto> JStr ''Initial consultation with Robert Williams regarding DUI case'',
       ''start_time'' \<mapsto> JStr ''2024-02-12T14:00:00Z'',
       ''end_time'' \<mapsto> JStr ''2024-02-12T15:00:00Z'',
       ''location'' \<mapsto> JStr ''Law Office Conference Room A'',
       ''event_type'' \<mapsto> JStr ''consultation'',
       ''priority'' \<mapsto> JStr ''medium'',
       ''status'' \<mapsto> JStr ''confirmed'',
       ''attendees'' \<mapsto> JArr
          [JObj [''name'' \<mapsto> JStr ''Robert Williams'', ''email'' \<mapsto> JStr ''robert.williams@email.com'',
                 ''role'' \<mapsto> JStr ''client'', ''required'' \<mapsto> JBool True]],
       ''reminders'' \<mapsto> JArr
          [JObj [''time_before'' \<mapsto> JNum 60, ''method'' \<mapsto> JStr ''email'', ''sent'' \<mapsto> JBool False]],
       ''notes'' \<mapsto> JStr ''Review police report and breathalyzer results'',
       ''documents'' \<mapsto> JArr [],
       ''created_date'' \<mapsto> JStr ''2024-01-10T08:00:00Z'',
       ''updated_date'' \<mapsto> JStr ''2024-01-18T16:45:00Z'',
       ''user_id'' \<mapsto> JStr ''1'']]"

text \<open>\<^verbatim>\<open>POST /api/calendar-events\<close>.\<close>

definition events_post :: "(string \<Rightarrow> int option) \<Rightarrow> nat \<Rightarrow> json option \<Rightarrow> obj \<Rightarrow> obj list
    \<Rightarrow> (ApiError + response) \<times> obj list" where
  "events_post parse now user_id eventData events0 =
     (if falsy (eventData ''title'') \<or> falsy (eventData ''start_time'')
         \<or> falsy (eventData ''end_time'')
      then (Inl (apiError ''Title, start time, and end time are required'' 400 ''MISSING_REQUIRED_FIELDS''),
            events0)
      else if date_ge (new_Date parse (eventData ''start_time'')) (new_Date parse (eventData ''end_time''))
      then (Inl (apiError ''End time must be after start time'' 400 ''INVALID_DATE_RANGE''), events0)
      else (let newEvent = (eventData(''id'' \<mapsto> JStr (string_of_nat now),
                              ''created_date'' \<mapsto> JStr (toISOString now),
                              ''updated_date'' \<mapsto> JStr (toISOString now)))
                             (''user_id'' := or_else user_id (Some (JStr ''1'')))
            in (Inr \<lparr>res_status = 201,
                     res_json = JObj [''success'' \<mapsto> JBool True, ''data'' \<mapsto> JObj newEvent,
                                      ''message'' \<mapsto> JStr ''Calendar event created successfully'']\<rparr>,
                events0 @ [newEvent])))"

text \<open>\<^verbatim>\<open>PUT /api/calendar-events/:id\<close>: the date range is checked only when the body has a
  truthy \<^verbatim>\<open>start_time\<close> or \<^verbatim>\<open>end_time\<close>, on \<^verbatim>\<open>updates.x || stored.x\<close>.\<close>

definition events_put :: "(string \<Rightarrow> int option) \<Rightarrow> nat \<Rightarrow> string \<Rightarrow> obj \<Rightarrow> obj list
    \<Rightarrow> (ApiError + response) \<times> obj list" where
  "events_put parse now id' updates events0 =
     (case findIndex (\<lambda>e. strict_eq (e ''id'') (Some (JStr id'))) events0 of
        None \<Rightarrow> (Inl (apiError ''Calendar event not found'' 404 ''EVENT_NOT_FOUND''), events0)
      | Some eventIndex \<Rightarrow>
          (if (truthy (updates ''start_time'') \<or> truthy (updates ''end_time''))
              \<and> date_ge
                    (new_Date parse (or_else (updates ''start_time'') ((events0 ! eventIndex) ''start_time'')))
                    (new_Date parse (or_else (updates ''end_time'') ((events0 ! eventIndex) ''end_time'')))
           then (Inl (apiError ''End time must be after start time'' 400 ''INVALID_DATE_RANGE''), events0)
           else (let updated = (events0 ! eventIndex ++ updates)
                                 (''updated_date'' \<mapsto> JStr (toISOString now))
                 in (Inr \<lparr>res_status = 200,
                          res_json = JObj [''success'' \<mapsto> JBool True, ''data'' \<mapsto> JObj updated,
                                           ''message'' \<mapsto> JStr ''Calendar event updated successfully'']\<rparr>,
                     events0[eventIndex := updated]))))"

text \<open>\<^verbatim>\<open>PUT /api/calendar-events/:id/reschedule\<close>.\<close>

definition events_reschedule :: "(string \<Rightarrow> int option) \<Rightarrow> nat \<Rightarrow> string \<Rightarrow> obj \<Rightarrow> obj list
    \<Rightarrow> (ApiError + response) \<times> obj list" where
  "events_reschedule parse now id' body events0 =
     (if falsy (body ''start_time'') \<or> falsy (body ''end_time'')
      then (Inl (apiError ''Start time and end time are required'' 400 ''MISSING_TIMES''), events0)
      else (case findIndex (\<lambda>e. strict_eq (e ''id'') (Some (JStr id'))) events0 of
              None \<Rightarrow> (Inl (apiError ''Calendar event not found'' 404 ''EVENT_NOT_FOUND''), events0)
            | Some eventIndex \<Rightarrow>
                (if date_ge (new_Date parse (body ''start_time'')) (new_Date parse (body ''end_time''))
                 then (Inl (apiError ''End time must be after start time'' 400 ''INVALID_DATE_RANGE''),
                       events0)
                 else (let updated = ((events0 ! eventIndex)
                                        (''start_time'' := body ''start_time'',
                                         ''end_time'' := body ''end_time''))
                                       (''status'' \<mapsto> JStr ''rescheduled'',
                                        ''updated_date'' \<mapsto> JStr (toISOString now))
                       in (Inr \<lparr>res_status = 200,
                                res_json = JObj [''success'' \<mapsto> JBool True, ''data'' \<mapsto> JObj updated,
                                                 ''message'' \<mapsto> JStr ''Event rescheduled successfully'']\<rparr>,
                           events0[eventIndex := updated])))))"

text \<open>\<^verbatim>\<open>DELETE /api/calendar-events/:id\<close>.\<close>

definition events_delete :: "string \<Rightarrow> obj list \<Rightarrow> (ApiError + response) \<times> obj list" where
  "events_delete id' events0 =
     (case findIndex (\<lambda>e. strict_eq (e ''id'') (Some (JStr id'))) events0 of
        None \<Rightarrow> (Inl (apiError ''Calendar event not found'' 404 ''EVENT_NOT_FOUND''), events0)
      | Some eventIndex \<Rightarrow>
          (Inr \<lparr>res_status = 200,
                res_json = JObj [''success'' \<mapsto> JBool True,
                                 ''message'' \<mapsto> JStr ''Calendar event deleted successfully'']\<rparr>,
           splice1 eventIndex events0))"

text \<open>What the routes' date check is for: the event starts strictly before it ends.\<close>

definition starts_before_end :: "(string \<Rightarrow> int option) \<Rightarrow> obj \<Rightarrow> bool" where
  "starts_before_end parse e =
     date_lt (new_Date parse (e ''start_time'')) (new_Date parse (e ''end_time''))"

text \<open>A time the routes read as a date: truthy, and no Invalid Date.\<close>

definition readable :: "(string \<Rightarrow> int option) \<Rightarrow> json option \<Rightarrow> bool" where
  "readable parse v = (truthy v \<and> \<not> Option.is_none (new_Date parse v))"

section \<open>Call logs\<close>

definition mockCallLogs :: "obj list" where
  "mockCallLogs =
     [[''id'' \<mapsto> JStr ''1'',
       ''case_id'' \<mapsto> JStr ''1'',
       ''to_number'' \<mapsto> JStr ''+15551234567'',
       ''from_number'' \<mapsto> JStr ''+15559876543'',
       ''started_at'' \<mapsto> JStr ''2024-01-20T14:00:00Z'',
       ''ended_at'' \<mapsto> JStr ''2024-01-20T14:15:00Z'',
       ''duration'' \<mapsto> JNum 900,
       ''recording_url'' \<mapsto> JStr ''/recordings/call-1-20240120.mp3'',
       ''transcript'' \<mapsto> JStr
          ''Attorney: Good afternoon, Mr. Smith. I wanted to discuss the contract dispute case...'',
       ''summary'' \<mapsto> JStr
          ''Discussed contract dispute details with client. Client provided additional evidence.'',
       ''call_status'' \<mapsto> JStr ''completed'',
       ''call_purpose'' \<mapsto> JStr ''client_consultation'',
       ''notes'' \<mapsto> JStr ''Client mentioned new witness who saw the contract signing'',
       ''action_items'' \<mapsto> JArr [JStr ''Contact new witness for statement'',
                                 JStr ''Review additional contract evidence'',
                                 JStr ''Schedule follow-up meeting''],
       ''participants'' \<mapsto> JArr
          [JObj [''name'' \<mapsto> JStr ''John Smith'', ''role'' \<mapsto> JStr ''client'',
                 ''phone'' \<mapsto> JStr ''+15551234567''],
           JObj [''name'' \<mapsto> JStr ''Demo Attorney'', ''role'' \<mapsto> JStr ''attorney'',
                 ''phone'' \<mapsto> JStr ''+15559876543'']],
       ''ai_insights'' \<mapsto> JObj
          [''sentiment'' \<mapsto> JStr ''positive'',
           ''key_topics'' \<mapsto> JArr [JStr ''contract dispute'', JStr ''witness testimony'', JStr ''evidence''],
           ''follow_up_required'' \<mapsto> JBool True,
           ''urgency_level'' \<mapsto> JStr ''medium''],
       ''created_date'' \<mapsto> JStr ''2024-01-20T14:00:00Z'',
       ''updated_date'' \<mapsto> JStr ''2024-01-20T14:16:00Z'',
       ''user_id'' \<mapsto> JStr ''1''],
      [''id'' \<mapsto> JStr ''2'',
       ''case_id'' \<mapsto> JStr ''2'',
       ''to_number'' \<mapsto> JStr ''+15555551234'',
       ''from_number'' \<mapsto> JStr ''+15559876543'',
       ''started_at'' \<mapsto> JStr ''2024-01-18T10:30:00Z'',
       ''ended_at'' \<mapsto> JStr ''2024-01-18T10:45:00Z'',
       ''duration'' \<mapsto> JNum 900,
       ''call_status'' \<mapsto> JStr ''completed'',
       ''call_purpose'' \<mapsto> JStr ''client_consultation'',
       ''notes'' \<mapsto> JStr ''Initial consultation for DUI case'',
       ''action_items'' \<mapsto> JArr [JStr ''Request police report'', JStr ''Schedule DMV hearing'',
                                 JStr ''Gather character references''],
       ''participants'' \<mapsto> JArr
          [JObj [''name'' \<mapsto> JStr ''Robert Williams'', ''role'' \<mapsto> JStr ''client'',
                 ''phone'' \<mapsto> JStr ''+15555551234'']],
       ''ai_insights'' \<mapsto> JObj
          [''sentiment'' \<mapsto> JStr ''neutral'',
           ''key_topics'' \<mapsto> JArr [JStr ''DUI'', JStr ''police report'', JStr ''DMV hearing''],
           ''follow_up_required'' \<mapsto> JBool True,
           ''urgency_level'' \<mapsto> JStr ''high''],
       ''created_date'' \<mapsto> JStr ''2024-01-18T10:30:00Z'',
       ''updated_date'' \<mapsto> JStr ''2024-01-18T10:46:00Z'',
       ''user_id'' \<mapsto> JStr ''1'']]"

text \<open>
  \<^verbatim>\<open>POST /api/call-logs/:id/end\<close>. The duration is
  \<^verbatim>\<open>Math.floor((endTime.getTime() - startTime.getTime()) / 1000)\<close>, which is \<^verbatim>\<open>NaN\<close> when
  \<^verbatim>\<open>started_at\<close> is no date.
\<close>

definition callLogs_end :: "(string \<Rightarrow> int option) \<Rightarrow> nat \<Rightarrow> string \<Rightarrow> obj list
    \<Rightarrow> (ApiError + response) \<times> obj list" where
  "callLogs_end parse now id' callLogs0 =
     (case findIndex (\<lambda>c. strict_eq (c ''id'') (Some (JStr id'))) callLogs0 of
        None \<Rightarrow> (Inl (apiError ''Call log not found'' 404 ''CALL_LOG_NOT_FOUND''), callLogs0)
      | Some callLogIndex \<Rightarrow>
          (let callLog = callLogs0 ! callLogIndex;
               callLogs1 =
                 (if falsy (callLog ''ended_at'')
                  then callLogs0[callLogIndex :=
                         callLog(''ended_at'' \<mapsto> JStr (toISOString now),
                                 ''duration'' \<mapsto>
                                    (case num_minus (Some (int now)) (new_Date parse (callLog ''started_at'')) of
                                       None \<Rightarrow> JNaN | Some d \<Rightarrow> JNum (d div 1000)),
                                 ''call_status'' \<mapsto> JStr ''completed'',
                                 ''updated_date'' \<mapsto> JStr (toISOString now))]
                  else callLogs0)
           in (Inr \<lparr>res_status = 200,
                    res_json = JObj [''success'' \<mapsto> JBool True,
                                     ''data'' \<mapsto> JObj (callLogs1 ! callLogIndex),
                                     ''message'' \<mapsto> JStr ''Call ended successfully'']\<rparr>,
               callLogs1)))"

section \<open>Documents\<close>

text \<open>
  A file part of a multipart request as multer reads it, and \<^verbatim>\<open>req.file\<close> once the disk
  storage has named it.
\<close>

record file_part =
  fieldname :: string
  originalname :: string
  mimetype :: string
  size' :: nat

record req_file = file_part +
  filename :: string

text \<open>The configuration handed to multer: \<^verbatim>\<open>limits.fileSize\<close> and \<^verbatim>\<open>fileFilter\<close>.\<close>

definition fileSize :: nat where
  "fileSize = 50 * 1024 * 1024"

definition allowedTypes :: "string list" where
  "allowedTypes =
     [''application/pdf'',
      ''application/msword'',
      ''application/vnd.openxmlformats-officedocument.wordprocessingml.document'',
      ''text/plain'',
      ''image/jpeg'',
      ''image/png'',
      ''image/gif'']"

text \<open>\<^verbatim>\<open>new Error(message)\<close>: no status code, no code.\<close>

definition Error :: "string \<Rightarrow> ApiError" where
  "Error message =
     \<lparr>err_name = ''Error'', err_message = message, err_stack = ''Error: '' @ message,
      err_statusCode = None, err_code = None, err_details = None\<rparr>"

definition fileFilter :: "file_part \<Rightarrow> ApiError + bool" where
  "fileFilter file =
     (if mimetype file \<in> set allowedTypes then Inr True
      else Inl (Error ''File type not supported''))"

text \<open>\<^verbatim>\<open>path.extname\<close>: from the last dot of the last path segment, empty when the segment
  has no dot or only a leading one.\<close>

definition extname :: "string \<Rightarrow> string" where
  "extname p =
     (let q = rev (dropWhile (\<lambda>c. c = CHR ''/'') (rev p));
          base = rev (takeWhile (\<lambda>c. c \<noteq> CHR ''/'') (rev q));
          ext = rev (takeWhile (\<lambda>c. c \<noteq> CHR ''.'') (rev base))
      in if CHR ''.'' \<notin> set base \<or> length ext + 1 = length base \<or> base = ''..'' then []
         else CHR ''.'' # ext)"

text \<open>The disk storage's \<^verbatim>\<open>filename\<close> callback; \<open>rnd\<close> is
  \<^verbatim>\<open>Math.round(Math.random() * 1E9)\<close>.\<close>

definition storage_filename :: "nat \<Rightarrow> nat \<Rightarrow> file_part \<Rightarrow> string" where
  "storage_filename now rnd file =
     fieldname file @ ''-'' @ string_of_nat now @ ''-'' @ string_of_nat rnd
       @ extname (originalname file)"

text \<open>
  \<^verbatim>\<open>upload.single(name)\<close>, after the documented behaviour of the multer library (it is
  not part of the repository): a file under another field name is refused, then the file
  filter decides, then the file is stored unless its length reaches the size limit (the
  parser under multer stops a file at the limit and reports it, so a file of exactly the
  limit is refused with the longer ones). An
  error goes to \<^verbatim>\<open>next\<close>; otherwise \<^verbatim>\<open>req.file\<close> is the stored file, or
  \<^verbatim>\<open>undefined\<close> when the request has none.
\<close>

definition MulterError :: "string \<Rightarrow> string \<Rightarrow> ApiError" where
  "MulterError code message =
     \<lparr>err_name = ''MulterError'', err_message = message, err_stack = ''MulterError: '' @ message,
      err_statusCode = None, err_code = Some (JStr code), err_details = None\<rparr>"

definition multer_single :: "string \<Rightarrow> nat \<Rightarrow> (file_part \<Rightarrow> ApiError + bool) \<Rightarrow> (file_part \<Rightarrow> string)
    \<Rightarrow> file_part option \<Rightarrow> ApiError + req_file option" where
  "multer_single name limit file_filter name_file part =
     (case part of
        None \<Rightarrow> Inr None
      | Some file \<Rightarrow>
          (if fieldname file \<noteq> name then Inl (MulterError ''LIMIT_UNEXPECTED_FILE'' ''Unexpected field'')
           else (case file_filter file of
                   Inl e \<Rightarrow> Inl e
                 | Inr False \<Rightarrow> Inr None
                 | Inr True \<Rightarrow>
                     (if size' file \<ge> limit then Inl (MulterError ''LIMIT_FILE_SIZE'' ''File too large'')
                      else Inr (Some (file_part.extend file (req_file.fields (name_file file))))))))"

definition mockDocuments :: "obj list" where
  "mockDocuments =
     [[''id'' \<mapsto> JStr ''1'',
       ''case_id'' \<mapsto> JStr ''1'',
       ''original_name'' \<mapsto> JStr ''contract_agreement.pdf'',
       ''file_name'' \<mapsto> JStr ''doc-1234567890-contract_agreement.pdf'',
       ''file_url'' \<mapsto> JStr ''/uploads/doc-1234567890-contract_agreement.pdf'',
       ''file_size'' \<mapsto> JNum 2048576,
       ''mime_type'' \<mapsto> JStr ''application/pdf'',
       ''document_type'' \<mapsto> JStr ''other'',
       ''status'' \<mapsto> JStr ''completed'',
       ''ai_summary'' \<mapsto> JStr
          ''Software development contract between Smith and Johnson for web application development.'',
       ''extracted_text'' \<mapsto> JStr
          ''This agreement is entered into between John Smith and Jane Johnson...'',
       ''tags'' \<mapsto> JArr [JStr ''contract'', JStr ''software'', JStr ''development''],
       ''metadata'' \<mapsto> JObj [''pages'' \<mapsto> JNum 5, ''word_count'' \<mapsto> JNum 1250],
       ''created_date'' \<mapsto> JStr ''2024-01-15T10:00:00Z'',
       ''updated_date'' \<mapsto> JStr ''2024-01-15T10:30:00Z'',
       ''user_id'' \<mapsto> JStr ''1'']]"

text \<open>
  The function of \<^verbatim>\<open>POST /api/documents/upload\<close>, run once multer has passed the request
  on. (The timer it starts for PDF and text files fires two seconds later and is not part
  of the request.)
\<close>

definition documents_upload :: "nat \<Rightarrow> json option \<Rightarrow> req_file option \<Rightarrow> obj \<Rightarrow> obj list
    \<Rightarrow> (ApiError + response) \<times> obj list" where
  "documents_upload now user_id file body documents0 =
     (case file of
        None \<Rightarrow> (Inl (apiError ''No file uploaded'' 400 ''NO_FILE''), documents0)
      | Some f \<Rightarrow>
          (let newDocument =
                 ([''id'' \<mapsto> JStr (string_of_nat now),
                   ''original_name'' \<mapsto> JStr (originalname f),
                   ''file_name'' \<mapsto> JStr (filename f),
                   ''file_url'' \<mapsto> JStr (''/uploads/'' @ filename f),
                   ''file_size'' \<mapsto> JNum (int (size' f)),
                   ''mime_type'' \<mapsto> JStr (mimetype f),
                   ''document_type'' \<mapsto>
                      (case body ''document_type'' of None \<Rightarrow> JStr ''other'' | Some v \<Rightarrow> v),
                   ''status'' \<mapsto>
                      JStr (if mimetype f \<in> set [''application/pdf'', ''text/plain'']
                            then ''processing'' else ''completed''),
                   ''tags'' \<mapsto> JArr [],
                   ''metadata'' \<mapsto> JObj Map.empty,
                   ''created_date'' \<mapsto> JStr (toISOString now),
                   ''updated_date'' \<mapsto> JStr (toISOString now)])
                 (''case_id'' := body ''case_id'',
                  ''user_id'' := or_else user_id (Some (JStr ''1'')))
           in (Inr \<lparr>res_status = 201,
                    res_json = JObj [''success'' \<mapsto> JBool True, ''data'' \<mapsto> JObj newDocument,
                                     ''message'' \<mapsto> JStr ''Document uploaded successfully'']\<rparr>,
               documents0 @ [newDocument])))"

text \<open>The route: \<^verbatim>\<open>router.post('/upload', upload.single('file'), asyncHandler(...))\<close>.\<close>

definition documents_upload_route :: "nat \<Rightarrow> nat \<Rightarrow> json option \<Rightarrow> file_part option \<Rightarrow> obj \<Rightarrow> obj list
    \<Rightarrow> (ApiError + response) \<times> obj list" where
  "documents_upload_route now rnd user_id part body documents0 =
     (case multer_single ''file'' fileSize fileFilter (storage_filename now rnd) part of
        Inl e \<Rightarrow> (Inl e, documents0)
      | Inr file \<Rightarrow> documents_upload now user_id file body documents0)"

section \<open>Authentication\<close>

text \<open>
  The libraries the login uses are not part of the repository; the routes take them as an
  argument: \<^verbatim>\<open>bcrypt.hash(s, rounds)\<close> and \<^verbatim>\<open>bcrypt.compare(s, hash)\<close> of bcryptjs, and
  \<^verbatim>\<open>jwt.sign(payload, secret, {expiresIn})\<close> and \<^verbatim>\<open>jwt.verify(token, secret)\<close> of
  jsonwebtoken, each as it answers during the request at hand.
\<close>

datatype jwt_outcome = Decoded obj | JsonWebTokenError | OtherError

record auth_lib =
  bcrypt_hash :: "string \<Rightarrow> nat \<Rightarrow> string"
  bcrypt_compare :: "string \<Rightarrow> string \<Rightarrow> bool"
  jwt_sign :: "obj \<Rightarrow> string \<Rightarrow> string \<Rightarrow> string"
  jwt_verify :: "string \<Rightarrow> string \<Rightarrow> jwt_outcome"

text \<open>\<^verbatim>\<open>process.env.JWT_SECRET || 'your-secret-key-change-in-production'\<close>.\<close>

definition JWT_SECRET :: "string option \<Rightarrow> string" where
  "JWT_SECRET env =
     (case env of
        None \<Rightarrow> ''your-secret-key-change-in-production''
      | Some s \<Rightarrow> if s = [] then ''your-secret-key-change-in-production'' else s)"

definition generateToken :: "auth_lib \<Rightarrow> string option \<Rightarrow> obj \<Rightarrow> string" where
  "generateToken lib env payload = jwt_sign lib payload (JWT_SECRET env) ''24h''"

definition generateRefreshToken :: "auth_lib \<Rightarrow> string option \<Rightarrow> obj \<Rightarrow> string" where
  "generateRefreshToken lib env payload = jwt_sign lib payload (JWT_SECRET env) ''7d''"

text \<open>The one user of \<^verbatim>\<open>POST /api/auth/login\<close>, its password hashed on every request.\<close>

definition mockUsers :: "auth_lib \<Rightarrow> obj list" where
  "mockUsers lib =
     [[''id'' \<mapsto> JStr ''1'',
       ''email'' \<mapsto> JStr ''demo@caseclerk.ai'',
       ''password'' \<mapsto> JStr (bcrypt_hash lib ''demo123'' 10),
       ''full_name'' \<mapsto> JStr ''Demo User'',
       ''role'' \<mapsto> JStr ''attorney'',
       ''onboarding_completed'' \<mapsto> JBool True]]"

text \<open>
  The body of the route's \<^verbatim>\<open>try\<close> block. \<^verbatim>\<open>bcrypt.compare\<close> rejects arguments that are
  no strings.
\<close>

definition login_try :: "auth_lib \<Rightarrow> string option \<Rightarrow> json option \<Rightarrow> json option \<Rightarrow> ApiError + response" where
  "login_try lib env email password =
     (case find (\<lambda>u. strict_eq (u ''email'') email) (mockUsers lib) of
        None \<Rightarrow> Inl (apiError ''Invalid credentials'' 401 ''INVALID_CREDENTIALS'')
      | Some user \<Rightarrow>
          (case (password, user ''password'') of
             (Some (JStr p), Some (JStr h)) \<Rightarrow>
               (if \<not> bcrypt_compare lib p h
                then Inl (apiError ''Invalid credentials'' 401 ''INVALID_CREDENTIALS'')
                else
                  (let accessToken = generateToken lib env
                         ((Map.empty(''id'' := user ''id'', ''email'' := user ''email''))
                            (''role'' := user ''role''));
                       refreshToken = generateRefreshToken lib env
                         (Map.empty(''id'' := user ''id'', ''email'' := user ''email''))
                   in Inr \<lparr>res_status = 200,
                           res_json = JObj
                             [''success'' \<mapsto> JBool True,
                              ''data'' \<mapsto> JObj
                                [''user'' \<mapsto> JObj
                                   ((Map.empty(''id'' := user ''id'', ''email'' := user ''email'',
                                       ''full_name'' := user ''full_name''))
                                     (''role'' := user ''role'',
                                      ''onboarding_completed'' := user ''onboarding_completed'')),
                                 ''access_token'' \<mapsto> JStr accessToken,
                                 ''refresh_token'' \<mapsto> JStr refreshToken,
                                 ''expires_in'' \<mapsto> JNum (24 * 60 * 60)]]\<rparr>))
           | _ \<Rightarrow> Inl (Error ''Illegal arguments'')))"

text \<open>\<^verbatim>\<open>POST /api/auth/login\<close>: whatever the \<^verbatim>\<open>try\<close> block throws is caught and thrown
  again as \<^verbatim>\<open>AUTH_FAILED\<close>.\<close>

definition auth_login :: "auth_lib \<Rightarrow> string option \<Rightarrow> obj \<Rightarrow> ApiError + response" where
  "auth_login lib env body =
     (if falsy (body ''email'') \<or> falsy (body ''password'')
      then Inl (apiError ''Email and password are required'' 400 ''MISSING_CREDENTIALS'')
      else (case login_try lib env (body ''email'') (body ''password'') of
              Inl error \<Rightarrow> Inl (apiError ''Authentication failed'' 401 ''AUTH_FAILED'')
            | Inr res \<Rightarrow> Inr res))"

section \<open>Middleware that answers by itself\<close>

text \<open>A middleware either sends a response or calls \<^verbatim>\<open>next()\<close>, with what it leaves on
  the request or response.\<close>

datatype 'a middleware = Send response | Next 'a

text \<open>
  \<^verbatim>\<open>rateLimiter\<close>: one counter per client and path. \<open>ip\<close> is \<^verbatim>\<open>req.ip\<close>, \<open>path\<close> is
  \<^verbatim>\<open>req.path\<close>; \<^verbatim>\<open>next()\<close> is called with the three rate-limit headers set.
\<close>

record rate_record =
  count' :: nat
  resetTime :: nat

definition rate_headers :: "nat \<Rightarrow> int \<Rightarrow> nat \<Rightarrow> (string \<times> string) list" where
  "rate_headers maxRequests remaining reset =
     [(''X-RateLimit-Limit'', string_of_nat maxRequests),
      (''X-RateLimit-Remaining'', string_of_int remaining),
      (''X-RateLimit-Reset'', toISOString reset)]"

definition rateLimiter :: "string option \<Rightarrow> string \<Rightarrow> nat \<Rightarrow> (string \<Rightarrow> rate_record option)
    \<Rightarrow> (string \<times> string) list middleware \<times> (string \<Rightarrow> rate_record option)" where
  "rateLimiter ip path now store =
     (let clientId = (case ip of None \<Rightarrow> ''unknown'' | Some a \<Rightarrow> if a = [] then ''unknown'' else a);
          (maxRequests, windowMs) =
            (if str_includes path ''/auth/login'' then (5, 15 * 60 * 1000)
             else if str_includes path ''/upload'' then (10, 60 * 1000)
             else if str_includes path ''/ai/'' then (20, 60 * 1000)
             else (100, 15 * 60 * 1000));
          key = clientId @ '':'' @ path
      in case store key of
           None \<Rightarrow>
             (Next (rate_headers maxRequests (int maxRequests - 1) (now + windowMs)),
              store(key \<mapsto> \<lparr>count' = 1, resetTime = now + windowMs\<rparr>))
         | Some record' \<Rightarrow>
             (if now > resetTime record'
              then (Next (rate_headers maxRequests (int maxRequests - 1) (now + windowMs)),
                    store(key \<mapsto> \<lparr>count' = 1, resetTime = now + windowMs\<rparr>))
              else if count' record' \<ge> maxRequests
              then (Send \<lparr>res_status = 429,
                          res_json = JObj [''success'' \<mapsto> JBool False,
                                           ''message'' \<mapsto> JStr ''Too many requests'',
                                           ''retryAfter'' \<mapsto>
                                              JNum (- ((int now - int (resetTime record')) div 1000))]\<rparr>,
                    store)
              else (Next (rate_headers maxRequests (int maxRequests - int (count' record' + 1))
                            (resetTime record')),
                    store(key \<mapsto> record'\<lparr>count' := count' record' + 1\<rparr>))))"

text \<open>
  \<^verbatim>\<open>authMiddleware\<close>: \<open>authorization\<close> is the request's header. \<^verbatim>\<open>next()\<close> is called with
  \<^verbatim>\<open>req.user\<close> set from the decoded token.
\<close>

definition lt_seconds :: "json option \<Rightarrow> nat \<Rightarrow> bool" where
  "lt_seconds exp now = (case exp of Some (JNum e) \<Rightarrow> e * 1000 < int now | _ \<Rightarrow> False)"

definition authMiddleware :: "auth_lib \<Rightarrow> string option \<Rightarrow> nat \<Rightarrow> string option \<Rightarrow> obj middleware" where
  "authMiddleware lib env now authorization =
     (case authorization of
        None \<Rightarrow> Send \<lparr>res_status = 401,
                       res_json = JObj [''success'' \<mapsto> JBool False,
                                        ''message'' \<mapsto> JStr ''Access token required'']\<rparr>
      | Some authHeader \<Rightarrow>
          (if take 7 authHeader \<noteq> ''Bearer ''
           then Send \<lparr>res_status = 401,
                      res_json = JObj [''success'' \<mapsto> JBool False,
                                       ''message'' \<mapsto> JStr ''Access token required'']\<rparr>
           else (case jwt_verify lib (drop 7 authHeader) (JWT_SECRET env) of
                   Decoded decoded \<Rightarrow>
                     (if lt_seconds (decoded ''exp'') now
                      then Send \<lparr>res_status = 401,
                                 res_json = JObj [''success'' \<mapsto> JBool False,
                                                  ''message'' \<mapsto> JStr ''Token expired'']\<rparr>
                      else Next (Map.empty(''id'' := decoded ''id'', ''email'' := decoded ''email'',
                                   ''role'' := decoded ''role'')))
                 | JsonWebTokenError \<Rightarrow>
                     Send \<lparr>res_status = 401,
                           res_json = JObj [''success'' \<mapsto> JBool False,
                                            ''message'' \<mapsto> JStr ''Invalid token'']\<rparr>
                 | OtherError \<Rightarrow>
                     Send \<lparr>res_status = 500,
                           res_json = JObj [''success'' \<mapsto> JBool False,
                                            ''message'' \<mapsto> JStr ''Authentication error'']\<rparr>)))"

text \<open>The application's last handler, \<^verbatim>\<open>app.use('*', ...)\<close>, for a request no route took.\<close>

definition route_not_found :: "string \<Rightarrow> response" where
  "route_not_found originalUrl =
     \<lparr>res_status = 404,
      res_json = JObj [''success'' \<mapsto> JBool False, ''message'' \<mapsto> JStr ''Route not found'',
                       ''path'' \<mapsto> JStr originalUrl]\<rparr>"

section \<open>The properties' vocabulary\<close>

text \<open>The error envelope \<^verbatim>\<open>{success: false, error: {code, message}}\<close>.\<close>

fun has_envelope :: "json \<Rightarrow> bool" where
  "has_envelope (JObj m) =
     (strict_eq (m ''success'') (Some (JBool False))
      \<and> (case m ''error'' of
            Some (JObj e) \<Rightarrow> \<not> Option.is_none (e ''code'') \<and> \<not> Option.is_none (e ''message'')
          | _ \<Rightarrow> False))"
| "has_envelope _ = False"

text \<open>
  What the middleware that answers by itself sends instead:
  \<^verbatim>\<open>{success: false, message: ...}\<close> with no \<^verbatim>\<open>error\<close> object.
\<close>

fun plain_failure :: "json \<Rightarrow> bool" where
  "plain_failure (JObj m) =
     (strict_eq (m ''success'') (Some (JBool False))
      \<and> (case m ''message'' of Some (JStr s) \<Rightarrow> True | _ \<Rightarrow> False)
      \<and> Option.is_none (m ''error''))"
| "plain_failure _ = False"


text \<open>The statuses of \<^verbatim>\<open>CaseData\<close>, and a case whose \<^verbatim>\<open>status\<close> is one of them.\<close>

definition case_statuses :: "string list" where
  "case_statuses = [''active'', ''pending'', ''closed'', ''appealed'', ''settled'']"

definition status_ok :: "obj \<Rightarrow> bool" where
  "status_ok c = (case c ''status'' of Some (JStr s) \<Rightarrow> s \<in> set case_statuses | _ \<Rightarrow> False)"

text \<open>No two cases of the store have the same \<^verbatim>\<open>case_number\<close>.\<close>

definition unique_case_numbers :: "obj list \<Rightarrow> bool" where
  "unique_case_numbers cases0 = distinct (map (\<lambda>c. c ''case_number'') cases0)"

text \<open>Reading a route's result: the status it sent, and a property of the response's
  \<^verbatim>\<open>data\<close> object.\<close>

definition sent_status :: "ApiError + response \<Rightarrow> nat option" where
  "sent_status r = (case r of Inl e \<Rightarrow> None | Inr res \<Rightarrow> Some (res_status res))"

definition data_field :: "string \<Rightarrow> ApiError + response \<Rightarrow> json option" where
  "data_field f r =
     (case r of
        Inl e \<Rightarrow> None
      | Inr res \<Rightarrow>
          (case res_json res of
             JObj m \<Rightarrow> (case m ''data'' of Some (JObj d) \<Rightarrow> d f | _ \<Rightarrow> None)
           | _ \<Rightarrow> None))"

section \<open>Sample requests\<close>

text \<open>Two well-formed bodies for \<^verbatim>\<open>POST /api/cases\<close>.\<close>

definition sample_case :: obj where
  "sample_case =
     [''case_number'' \<mapsto> JStr ''2024-CV-009999'',
      ''title'' \<mapsto> JStr ''Doe vs. Roe'',
      ''status'' \<mapsto> JStr ''active'',
      ''case_type'' \<mapsto> JStr ''civil'',
      ''priority'' \<mapsto> JStr ''low'',
      ''tags'' \<mapsto> JArr []]"

definition sample_case2 :: obj where
  "sample_case2 =
     [''case_number'' \<mapsto> JStr ''2024-FA-000321'',
      ''title'' \<mapsto> JStr ''In re Marriage of Poe'',
      ''status'' \<mapsto> JStr ''pending'',
      ''case_type'' \<mapsto> JStr ''family'',
      ''priority'' \<mapsto> JStr ''low'',
      ''tags'' \<mapsto> JArr []]"

text \<open>A body for \<^verbatim>\<open>POST /api/calendar-events\<close> whose times are strings that are no dates.\<close>

definition sample_event :: obj where
  "sample_event =
     [''title'' \<mapsto> JStr ''Status conference'',
      ''start_time'' \<mapsto> JStr ''tomorrow morning'',
      ''end_time'' \<mapsto> JStr ''tbd'',
      ''event_type'' \<mapsto> JStr ''meeting'',
      ''priority'' \<mapsto> JStr ''low'',
      ''status'' \<mapsto> JStr ''scheduled'',
      ''attendees'' \<mapsto> JArr [],
      ''reminders'' \<mapsto> JArr [],
      ''documents'' \<mapsto> JArr []]"

text \<open>A body for the same route with an hour between its start and its end.\<close>

definition sample_event2 :: obj where
  "sample_event2 =
     [''title'' \<mapsto> JStr ''Deposition of J. Johnson'',
      ''start_time'' \<mapsto> JStr ''2024-02-15T10:00:00Z'',
      ''end_time'' \<mapsto> JStr ''2024-02-15T11:00:00Z'',
      ''event_type'' \<mapsto> JStr ''deposition'',
      ''priority'' \<mapsto> JStr ''medium'',
      ''status'' \<mapsto> JStr ''scheduled'',
      ''attendees'' \<mapsto> JArr [],
      ''reminders'' \<mapsto> JArr [],
      ''documents'' \<mapsto> JArr []]"

text \<open>The demo credentials.\<close>

definition demo_login :: obj where
  "demo_login = [''email'' \<mapsto> JStr ''demo@caseclerk.ai'', ''password'' \<mapsto> JStr ''demo123'']"

text \<open>
  Stand-ins for bcryptjs and jsonwebtoken, to run the login on: a hash that can be
  compared, and a token that spells out the id and role it was signed for, its expiry and
  the secret.
\<close>

definition toy_lib :: auth_lib where
  "toy_lib =
     \<lparr>bcrypt_hash = (\<lambda>s rounds. ''$2a$'' @ string_of_nat rounds @ ''$'' @ rev s),
      bcrypt_compare = (\<lambda>s h. h = ''$2a$10$'' @ rev s),
      jwt_sign = (\<lambda>payload secret expiresIn.
         ''jwt.'' @ (case payload ''id'' of None \<Rightarrow> [] | Some v \<Rightarrow> ToString v)
           @ ''.'' @ (case payload ''role'' of None \<Rightarrow> [] | Some v \<Rightarrow> ToString v)
           @ ''.'' @ expiresIn @ ''.'' @ secret),
      jwt_verify = (\<lambda>token secret. JsonWebTokenError)\<rparr>"

text \<open>Two uploads: a PDF one byte over the limit, and a small archive.\<close>

definition big_pdf :: file_part where
  "big_pdf = \<lparr>fieldname = ''file'', originalname = ''exhibits.pdf'',
              mimetype = ''application/pdf'', size' = 52428801\<rparr>"

definition zip_file :: file_part where
  "zip_file = \<lparr>fieldname = ''file'', originalname = ''exhibits.zip'',
               mimetype = ''application/zip'', size' = 1024\<rparr>"

section \<open>Basic facts\<close>

lemma findIndex_SomeD:
  "findIndex P xs = Some i \<Longrightarrow> i < length xs \<and> P (xs ! i)"
proof (induction xs arbitrary: i)
  case Nil
  then show ?case by simp
next
  case (Cons x xs)
  then show ?case by (cases "P x") auto
qed

lemma find_append_fresh:
  "find P xs = None \<Longrightarrow> P y \<Longrightarrow> find P (xs @ [y]) = Some y"
  by (induction xs) (auto split: if_splits)

lemma string_of_nat_sample: "string_of_nat 1700000000000 = ''1700000000000''"
  by (simp add: string_of_nat.simps)

lemma find_Some_if_ex: "list_ex P xs \<Longrightarrow> \<exists>x. find P xs = Some x"
  by (induction xs) auto

lemma find_None_D: "find P xs = None \<Longrightarrow> x \<in> set xs \<Longrightarrow> \<not> P x"
  by (induction xs) (auto split: if_splits)

lemma list_all_update: "list_all P xs \<Longrightarrow> P y \<Longrightarrow> list_all P (xs[i := y])"
  using set_update_subset_insert [of xs i y] by (auto simp: list_all_iff)

lemma distinct_splice1: "distinct xs \<Longrightarrow> distinct (splice1 i xs)"
  by (simp add: splice1_def set_take_disj_set_drop_if_distinct)

lemma map_splice1: "map f (splice1 i xs) = splice1 i (map f xs)"
  by (simp add: splice1_def take_map drop_map)

lemma findIndex_update_same:
  "findIndex P xs = Some i \<Longrightarrow> P y \<Longrightarrow> findIndex P (xs[i := y]) = Some i"
proof (induction xs arbitrary: i)
  case Nil
  then show ?case by simp
next
  case (Cons x xs)
  show ?case
  proof (cases "P x")
    case True
    with Cons.prems show ?thesis by simp
  next
    case False
    with Cons.prems obtain j where j: "findIndex P xs = Some j" "i = Suc j"
      by auto
    with Cons.IH [OF j(1) Cons.prems(2)] False show ?thesis by simp
  qed
qed

lemma toISOString_nonempty: "toISOString t \<noteq> []"
  by (simp add: toISOString_def Let_def split: prod.splits)

text \<open>The reference parser on the strings of the mock events and of the sample event.\<close>

lemma Date_parse_samples:
  "Date_parse ''2024-02-15T10:00:00Z'' = Some 1707991200000"
  "Date_parse ''2024-02-15T11:00:00Z'' = Some 1707994800000"
  "Date_parse ''2024-02-12T14:00:00Z'' = Some 1707746400000"
  "Date_parse ''2024-02-12T15:00:00Z'' = Some 1707750000000"
  "Date_parse ''tomorrow morning'' = None"
  "Date_parse ''tbd'' = None"
  by (simp_all add: Date_parse_def make_time_def days_in_month_def days_from_civil_def
      is_digit_def in_range_def)

lemma mockEvents_ordered: "list_all (starts_before_end Date_parse) mockEvents"
  by (simp add: mockEvents_def starts_before_end_def Date_parse_samples)

lemma date_lt_if_not_ge:
  "\<not> Option.is_none a \<Longrightarrow> \<not> Option.is_none b \<Longrightarrow> \<not> date_ge a b \<Longrightarrow> date_lt a b"
  by (cases a; cases b) (auto simp: Option.is_none_def)

lemma starts_before_end_readable:
  "starts_before_end parse e \<Longrightarrow>
     \<not> Option.is_none (new_Date parse (e ''start_time'')) \<and> \<not> Option.is_none (new_Date parse (e ''end_time''))"
  unfolding starts_before_end_def
  by (cases "new_Date parse (e ''start_time'')"; cases "new_Date parse (e ''end_time'')") simp_all

text \<open>Against a string, \<^verbatim>\<open>===\<close> is equality.\<close>

lemma strict_eq_JStr: "strict_eq v (Some (JStr s)) \<longleftrightarrow> v = Some (JStr s)"
proof (cases v)
  case None
  then show ?thesis by simp
next
  case (Some j)
  then show ?thesis by (cases j) auto
qed

text \<open>Sorting permutes.\<close>

lemma mset_insort_by: "mset (insort_by cmp x xs) = add_mset x (mset xs)"
  by (induction xs) (auto split: option.splits)

lemma mset_sort_by: "mset (sort_by cmp xs) = mset xs"
  unfolding sort_by_def by (induction xs) (simp_all add: mset_insort_by)

text \<open>What \<^verbatim>\<open>errorHandler\<close> makes of an error a route threw with \<^verbatim>\<open>createError\<close>.\<close>

lemma errorHandler_apiError:
  assumes "n \<noteq> 0" and "c \<noteq> []"
  shows "\<exists>m e. errorHandler NODE_ENV now url (apiError msg n c)
           = \<lparr>res_status = n, res_json = JObj m\<rparr>
     \<and> m ''success'' = Some (JBool False) \<and> m ''error'' = Some (JObj e)
     \<and> e ''code'' = Some (JStr c)"
  using assms by (simp add: errorHandler_def apiError_def createError_def Let_def)

section \<open>Cases: create, then read\<close>

text \<open>
  C1 (as amended). A \<^verbatim>\<open>POST /api/cases\<close> whose body has a truthy \<^verbatim>\<open>case_number\<close> and
  \<^verbatim>\<open>title\<close>, whose \<^verbatim>\<open>case_number\<close> no stored case has, and whose new id
  (\<^verbatim>\<open>Date.now().toString()\<close>) no stored case has, answers 201 with the new case; a
  \<^verbatim>\<open>GET /api/cases/:id\<close> with that id right after answers with \<^verbatim>\<open>success: true\<close> and the
  same case, whose \<^verbatim>\<open>case_number\<close> and \<^verbatim>\<open>title\<close> are the ones submitted.
\<close>

theorem cases_post_then_get:
  assumes "truthy (caseData ''case_number'')" and "truthy (caseData ''title'')"
    and "find (\<lambda>c. strict_eq (c ''case_number'') (caseData ''case_number'')) cases0 = None"
    and "find (\<lambda>c. strict_eq (c ''id'') (Some (JStr (string_of_nat now)))) cases0 = None"
  shows "\<exists>newCase.
      cases_post now user_id caseData cases0 =
        (Inr \<lparr>res_status = 201,
              res_json = JObj [''success'' \<mapsto> JBool True, ''data'' \<mapsto> JObj newCase,
                               ''message'' \<mapsto> JStr ''Case created successfully'']\<rparr>,
         cases0 @ [newCase])
      \<and> newCase ''id'' = Some (JStr (string_of_nat now))
      \<and> cases_get_id (string_of_nat now) (cases0 @ [newCase]) =
          Inr \<lparr>res_status = 200,
               res_json = JObj [''success'' \<mapsto> JBool True, ''data'' \<mapsto> JObj newCase]\<rparr>
      \<and> newCase ''case_number'' = caseData ''case_number''
      \<and> newCase ''title'' = caseData ''title''"
proof -
  define newCase where "newCase = (caseData(''id'' \<mapsto> JStr (string_of_nat now),
                                  ''created_date'' \<mapsto> JStr (toISOString now),
                                  ''updated_date'' \<mapsto> JStr (toISOString now)))
                                 (''user_id'' := or_else user_id (Some (JStr ''1'')))"
  have id: "newCase ''id'' = Some (JStr (string_of_nat now))"
    by (simp add: newCase_def)
  have post: "cases_post now user_id caseData cases0 =
        (Inr \<lparr>res_status = 201,
              res_json = JObj [''success'' \<mapsto> JBool True, ''data'' \<mapsto> JObj newCase,
                               ''message'' \<mapsto> JStr ''Case created successfully'']\<rparr>,
         cases0 @ [newCase])"
    using assms(1-3) by (simp add: cases_post_def newCase_def Let_def)
  have "find (\<lambda>c. strict_eq (c ''id'') (Some (JStr (string_of_nat now)))) (cases0 @ [newCase])
        = Some newCase"
    using assms(4) id by (intro find_append_fresh) simp_all
  then have get: "cases_get_id (string_of_nat now) (cases0 @ [newCase]) =
          Inr \<lparr>res_status = 200,
               res_json = JObj [''success'' \<mapsto> JBool True, ''data'' \<mapsto> JObj newCase]\<rparr>"
    by (simp add: cases_get_id_def)
  have "newCase ''case_number'' = caseData ''case_number''" "newCase ''title'' = caseData ''title''"
    by (simp_all add: newCase_def)
  with id post get show ?thesis by blast
qed

text \<open>The theorem at the first sample body, posted to the initial store.\<close>

theorem cases_post_then_get_witness:
  "truthy (sample_case ''case_number'') \<and> truthy (sample_case ''title'')
   \<and> find (\<lambda>c. strict_eq (c ''case_number'') (sample_case ''case_number'')) mockCases = None
   \<and> find (\<lambda>c. strict_eq (c ''id'') (Some (JStr (string_of_nat 1700000000000)))) mockCases = None
   \<and> (\<exists>newCase.
      cases_post 1700000000000 None sample_case mockCases =
        (Inr \<lparr>res_status = 201,
              res_json = JObj [''success'' \<mapsto> JBool True, ''data'' \<mapsto> JObj newCase,
                               ''message'' \<mapsto> JStr ''Case created successfully'']\<rparr>,
         mockCases @ [newCase])
      \<and> newCase ''id'' = Some (JStr (string_of_nat 1700000000000))
      \<and> cases_get_id (string_of_nat 1700000000000) (mockCases @ [newCase]) =
          Inr \<lparr>res_status = 200,
               res_json = JObj [''success'' \<mapsto> JBool True, ''data'' \<mapsto> JObj newCase]\<rparr>
      \<and> newCase ''case_number'' = sample_case ''case_number''
      \<and> newCase ''title'' = sample_case ''title'')"
proof -
  have h1: "truthy (sample_case ''case_number'')" and h2: "truthy (sample_case ''title'')"
    by (simp_all add: sample_case_def)
  have h3: "find (\<lambda>c. strict_eq (c ''case_number'') (sample_case ''case_number'')) mockCases = None"
    by (simp add: sample_case_def mockCases_def)
  have h4: "find (\<lambda>c. strict_eq (c ''id'') (Some (JStr (string_of_nat 1700000000000)))) mockCases
            = None"
    by (simp add: string_of_nat_sample mockCases_def)
  from cases_post_then_get [OF h1 h2 h3 h4, of None] h1 h2 h3 h4 show ?thesis by blast
qed

text \<open>
  C1 as stated fails: two valid creations within the same millisecond get the same id,
  and reading the second one back by its id finds the first case, with another
  \<^verbatim>\<open>case_number\<close>.
\<close>

theorem cases_post_same_millisecond:
  "truthy (sample_case2 ''case_number'') \<and> truthy (sample_case2 ''title'')
   \<and> find (\<lambda>c. strict_eq (c ''case_number'') (sample_case2 ''case_number''))
        (snd (cases_post 1700000000000 None sample_case mockCases)) = None
   \<and> sent_status (fst (cases_post 1700000000000 None sample_case2
        (snd (cases_post 1700000000000 None sample_case mockCases)))) = Some 201
   \<and> data_field ''id'' (fst (cases_post 1700000000000 None sample_case2
        (snd (cases_post 1700000000000 None sample_case mockCases)))) = Some (JStr ''1700000000000'')
   \<and> data_field ''case_number'' (cases_get_id ''1700000000000''
        (snd (cases_post 1700000000000 None sample_case2
          (snd (cases_post 1700000000000 None sample_case mockCases)))))
       = Some (JStr ''2024-CV-009999'')
   \<and> sample_case2 ''case_number'' = Some (JStr ''2024-FA-000321'')"
  by (simp add: cases_post_def cases_get_id_def sample_case_def sample_case2_def mockCases_def
      string_of_nat_sample sent_status_def data_field_def Let_def)

section \<open>Cases: duplicate case numbers\<close>

text \<open>
  C2 (as amended). A \<^verbatim>\<open>POST /api/cases\<close> whose body has a truthy \<^verbatim>\<open>case_number\<close> and
  \<^verbatim>\<open>title\<close>, and whose \<^verbatim>\<open>case_number\<close> is (\<^verbatim>\<open>===\<close>) that of a stored case, is answered
  with status 409 and the error code \<^verbatim>\<open>DUPLICATE_CASE_NUMBER\<close>, and the store is as it
  was.
\<close>

theorem cases_post_duplicate:
  assumes "truthy (caseData ''case_number'')" and "truthy (caseData ''title'')"
    and "list_ex (\<lambda>c. strict_eq (c ''case_number'') (caseData ''case_number'')) cases0"
  shows "\<exists>m e. asyncHandler NODE_ENV now url (cases_post now user_id caseData cases0)
           = (\<lparr>res_status = 409, res_json = JObj m\<rparr>, cases0)
         \<and> m ''success'' = Some (JBool False) \<and> m ''error'' = Some (JObj e)
         \<and> e ''code'' = Some (JStr ''DUPLICATE_CASE_NUMBER'')"
proof -
  obtain existingCase where
    "find (\<lambda>c. strict_eq (c ''case_number'') (caseData ''case_number'')) cases0 = Some existingCase"
    using find_Some_if_ex [OF assms(3)] by blast
  then have "cases_post now user_id caseData cases0 =
      (Inl (apiError ''Case number already exists'' 409 ''DUPLICATE_CASE_NUMBER''), cases0)"
    using assms(1,2) by (simp add: cases_post_def)
  moreover obtain m e where
    "errorHandler NODE_ENV now url (apiError ''Case number already exists'' 409 ''DUPLICATE_CASE_NUMBER'')
       = \<lparr>res_status = 409, res_json = JObj m\<rparr>"
    "m ''success'' = Some (JBool False)" "m ''error'' = Some (JObj e)"
    "e ''code'' = Some (JStr ''DUPLICATE_CASE_NUMBER'')"
    using errorHandler_apiError [of 409 "''DUPLICATE_CASE_NUMBER''" NODE_ENV now url
        "''Case number already exists''"] by auto
  ultimately show ?thesis by (auto simp: asyncHandler_def)
qed

text \<open>The theorem at the first sample body, posted a second time.\<close>

theorem cases_post_duplicate_witness:
  "truthy (sample_case ''case_number'') \<and> truthy (sample_case ''title'')
   \<and> list_ex (\<lambda>c. strict_eq (c ''case_number'') (sample_case ''case_number''))
        (snd (cases_post 1700000000000 None sample_case mockCases))
   \<and> (\<exists>m e. asyncHandler None 1700000000001 ''/'' (cases_post 1700000000001 None sample_case
               (snd (cases_post 1700000000000 None sample_case mockCases)))
           = (\<lparr>res_status = 409, res_json = JObj m\<rparr>,
              snd (cases_post 1700000000000 None sample_case mockCases))
         \<and> m ''success'' = Some (JBool False) \<and> m ''error'' = Some (JObj e)
         \<and> e ''code'' = Some (JStr ''DUPLICATE_CASE_NUMBER''))"
proof -
  have h1: "truthy (sample_case ''case_number'')" and h2: "truthy (sample_case ''title'')"
    by (simp_all add: sample_case_def)
  have h3: "list_ex (\<lambda>c. strict_eq (c ''case_number'') (sample_case ''case_number''))
        (snd (cases_post 1700000000000 None sample_case mockCases))"
    by (simp add: cases_post_def sample_case_def mockCases_def Let_def)
  from cases_post_duplicate [OF h1 h2 h3, of None 1700000000001 "''/''" None] h1 h2 h3
  show ?thesis by blast
qed

text \<open>
  C2 as stated fails: the required fields are checked first, so a body with the
  \<^verbatim>\<open>case_number\<close> of a stored case and an empty \<^verbatim>\<open>title\<close> is answered with 400.
\<close>

theorem cases_post_duplicate_without_title:
  "list_ex (\<lambda>c. strict_eq (c ''case_number'') (Some (JStr ''2024-CV-001234''))) mockCases
   \<and> res_status (fst (asyncHandler None 1700000000000 ''/''
        (cases_post 1700000000000 None
           [''case_number'' \<mapsto> JStr ''2024-CV-001234'', ''title'' \<mapsto> JStr []] mockCases))) = 400
   \<and> fst (cases_post 1700000000000 None
           [''case_number'' \<mapsto> JStr ''2024-CV-001234'', ''title'' \<mapsto> JStr []] mockCases)
       = Inl (apiError ''Case number and title are required'' 400 ''MISSING_REQUIRED_FIELDS'')"
  by (simp add: cases_post_def mockCases_def asyncHandler_def errorHandler_def apiError_def
      createError_def Let_def)

section \<open>Cases: filtering by status\<close>

text \<open>
  C4. For every store (and every date parser), \<^verbatim>\<open>GET /api/cases?status=active\<close> answers
  200 with a list of cases that all have the status \<^verbatim>\<open>'active'\<close> and that is, up to
  the order the sort gives it, the list of the stored cases with that status.
\<close>

theorem cases_get_status_active:
  "\<exists>rs. cases_get parse [''status'' \<mapsto> JStr ''active''] cases0 =
          Inr \<lparr>res_status = 200,
               res_json = JObj [''success'' \<mapsto> JBool True,
                                ''data'' \<mapsto> JArr (map JObj rs),
                                ''total'' \<mapsto> JNum (int (length rs))]\<rparr>
        \<and> list_all (\<lambda>c. c ''status'' = Some (JStr ''active'')) rs
        \<and> mset rs = mset (filter (\<lambda>c. c ''status'' = Some (JStr ''active'')) cases0)"
proof -
  let ?act = "filter (\<lambda>c. c ''status'' = Some (JStr ''active'')) cases0"
  define rs where "rs = sort_by (\<lambda>a b. num_minus (new_Date parse (b ''updated_date''))
                                                  (new_Date parse (a ''updated_date''))) ?act"
  have m: "mset rs = mset ?act"
    by (simp add: rs_def mset_sort_by)
  then have "set rs = set ?act"
    by (rule mset_eq_setD)
  then have a: "list_all (\<lambda>c. c ''status'' = Some (JStr ''active'')) rs"
    by (simp add: list_all_iff)
  have "cases_get parse [''status'' \<mapsto> JStr ''active''] cases0 =
          Inr \<lparr>res_status = 200,
               res_json = JObj [''success'' \<mapsto> JBool True,
                                ''data'' \<mapsto> JArr (map JObj rs),
                                ''total'' \<mapsto> JNum (int (length rs))]\<rparr>"
    by (simp add: cases_get_def rs_def strict_eq_JStr Let_def)
  with a m show ?thesis by blast
qed

section \<open>Cases: uniqueness of the case number\<close>

text \<open>
  C7 at its failing input. \<^verbatim>\<open>PUT /api/cases/2\<close> with the \<^verbatim>\<open>case_number\<close> of case 1 is
  answered with 200 and leaves two cases with the same \<^verbatim>\<open>case_number\<close> in the store:
  the update has no check like the one of the creation.
\<close>

theorem cases_put_duplicates_case_number:
  "unique_case_numbers mockCases
   \<and> sent_status (fst (cases_put 1700000000000 ''2'' [''case_number'' \<mapsto> JStr ''2024-CV-001234'']
        mockCases)) = Some 200
   \<and> \<not> unique_case_numbers (snd (cases_put 1700000000000 ''2''
        [''case_number'' \<mapsto> JStr ''2024-CV-001234''] mockCases))"
  by (simp add: unique_case_numbers_def cases_put_def mockCases_def sent_status_def Let_def)

text \<open>The creation and the deletion do keep the case numbers apart.\<close>

lemma cases_post_unique:
  assumes "unique_case_numbers cases0" and "caseData ''case_number'' = Some (JStr s)"
  shows "unique_case_numbers (snd (cases_post now user_id caseData cases0))"
proof (cases "find (\<lambda>c. strict_eq (c ''case_number'') (caseData ''case_number'')) cases0")
  case None
  then have "\<forall>c\<in>set cases0. c ''case_number'' \<noteq> Some (JStr s)"
    using assms(2) by (auto dest!: find_None_D simp: strict_eq_JStr)
  then have "Some (JStr s) \<notin> (\<lambda>c. c ''case_number'') ` set cases0"
    by auto
  with None assms show ?thesis
    by (auto simp: cases_post_def unique_case_numbers_def Let_def)
next
  case (Some existingCase)
  with assms(1) show ?thesis by (simp add: cases_post_def)
qed

lemma cases_delete_unique:
  assumes "unique_case_numbers cases0"
  shows "unique_case_numbers (snd (cases_delete id' cases0))"
proof (cases "findIndex (\<lambda>c. strict_eq (c ''id'') (Some (JStr id'))) cases0")
  case None
  with assms show ?thesis by (simp add: cases_delete_def)
next
  case (Some i)
  have "distinct (splice1 i (map (\<lambda>c. c ''case_number'') cases0))"
    using assms unfolding unique_case_numbers_def by (rule distinct_splice1)
  with Some show ?thesis by (simp add: cases_delete_def map_splice1 unique_case_numbers_def)
qed

text \<open>
  When no two stored cases have the same \<^verbatim>\<open>case_number\<close>, this is still so after a
  \<^verbatim>\<open>POST /api/cases\<close> whose \<^verbatim>\<open>case_number\<close> is a string, and after a
  \<^verbatim>\<open>DELETE /api/cases/:id\<close>.
\<close>

theorem cases_post_delete_unique:
  "(unique_case_numbers cases0 \<and> caseData ''case_number'' = Some (JStr s)
      \<longrightarrow> unique_case_numbers (snd (cases_post now user_id caseData cases0)))
   \<and> (unique_case_numbers cases0 \<longrightarrow> unique_case_numbers (snd (cases_delete id' cases0)))"
  by (simp add: cases_post_unique cases_delete_unique)

text \<open>The theorem at the first sample body and at the deletion of case 1.\<close>

theorem cases_post_delete_unique_witness:
  "unique_case_numbers mockCases \<and> sample_case ''case_number'' = Some (JStr ''2024-CV-009999'')
   \<and> unique_case_numbers (snd (cases_post 1700000000000 None sample_case mockCases))
   \<and> unique_case_numbers (snd (cases_delete ''1'' mockCases))"
proof -
  have h1: "unique_case_numbers mockCases"
    and h2: "sample_case ''case_number'' = Some (JStr ''2024-CV-009999'')"
    by (simp_all add: unique_case_numbers_def mockCases_def sample_case_def)
  from cases_post_delete_unique [of mockCases sample_case "''2024-CV-009999''" 1700000000000 None "''1''"]
    h1 h2
  show ?thesis by blast
qed

section \<open>Cases: the status set\<close>

text \<open>
  C8 (as amended). Every case of the initial store has a status from
  \<^verbatim>\<open>{active, pending, closed, appealed, settled}\<close>. The creation and the update store the
  body's status as it comes: when every stored case has a status from the set, so it is
  after a \<^verbatim>\<open>POST /api/cases\<close> whose body has a status from the set, and after a
  \<^verbatim>\<open>PUT /api/cases/:id\<close> whose body has no status or one from the set.
\<close>

theorem case_status_kept:
  "list_all status_ok mockCases
   \<and> (list_all status_ok cases0 \<and> status_ok caseData
        \<longrightarrow> list_all status_ok (snd (cases_post now user_id caseData cases0)))
   \<and> (list_all status_ok cases0 \<and> (updates ''status'' = None \<or> status_ok updates)
        \<longrightarrow> list_all status_ok (snd (cases_put now id' updates cases0)))"
proof (intro conjI impI)
  show "list_all status_ok mockCases"
    by (simp add: mockCases_def status_ok_def case_statuses_def)
next
  assume a: "list_all status_ok cases0 \<and> status_ok caseData"
  then have "status_ok ((caseData(''id'' \<mapsto> JStr (string_of_nat now),
                           ''created_date'' \<mapsto> JStr (toISOString now),
                           ''updated_date'' \<mapsto> JStr (toISOString now)))
                          (''user_id'' := or_else user_id (Some (JStr ''1''))))"
    by (simp add: status_ok_def)
  with a show "list_all status_ok (snd (cases_post now user_id caseData cases0))"
    by (simp add: cases_post_def Let_def split: option.splits)
next
  assume a: "list_all status_ok cases0 \<and> (updates ''status'' = None \<or> status_ok updates)"
  show "list_all status_ok (snd (cases_put now id' updates cases0))"
  proof (cases "findIndex (\<lambda>c. strict_eq (c ''id'') (Some (JStr id'))) cases0")
    case None
    with a show ?thesis by (simp add: cases_put_def)
  next
    case (Some i)
    then have "i < length cases0" by (simp add: findIndex_SomeD)
    with a have old: "status_ok (cases0 ! i)" by (simp add: list_all_length)
    have "status_ok ((cases0 ! i ++ updates)(''updated_date'' \<mapsto> JStr (toISOString now)))"
      using a old by (auto simp: status_ok_def map_add_def split: option.splits)
    with a Some show ?thesis by (simp add: cases_put_def Let_def list_all_update)
  qed
qed

text \<open>The theorem at the first sample body, and at an update that closes case 1.\<close>

theorem case_status_kept_witness:
  "list_all status_ok mockCases \<and> status_ok sample_case
   \<and> list_all status_ok (snd (cases_post 1700000000000 None sample_case mockCases))
   \<and> status_ok [''status'' \<mapsto> JStr ''closed'']
   \<and> list_all status_ok
        (snd (cases_put 1700000000000 ''1'' [''status'' \<mapsto> JStr ''closed''] mockCases))"
proof -
  have h1: "list_all status_ok mockCases" and h2: "status_ok sample_case"
    and h3: "status_ok [''status'' \<mapsto> JStr ''closed'']"
    by (simp_all add: mockCases_def sample_case_def status_ok_def case_statuses_def)
  from case_status_kept [of mockCases sample_case 1700000000000 None
      "[''status'' \<mapsto> JStr ''closed'']" "''1''"] h1 h2 h3
  show ?thesis by blast
qed

text \<open>
  C8 as stated fails: a creation with a status outside the set is answered with 201 and
  the case is stored with that status.
\<close>

theorem cases_post_unchecked_status:
  "list_all status_ok mockCases
   \<and> sent_status (fst (cases_post 1700000000000 None (sample_case(''status'' \<mapsto> JStr ''bogus''))
        mockCases)) = Some 201
   \<and> \<not> list_all status_ok
         (snd (cases_post 1700000000000 None (sample_case(''status'' \<mapsto> JStr ''bogus'')) mockCases))"
  by (simp add: cases_post_def mockCases_def sample_case_def status_ok_def case_statuses_def
      sent_status_def Let_def)

section \<open>Calendar events: start before end\<close>

text \<open>
  C9 at its failing inputs. The three routes compare \<^verbatim>\<open>new Date(start) >= new Date(end)\<close>,
  which is false when either string is no date: a creation, an update and a rescheduling
  with such strings are answered with 201 and 200, and leave in the store an event that
  does not start before it ends (every mock event does).
\<close>

theorem events_accept_unreadable_dates:
  "list_all (starts_before_end Date_parse) mockEvents
   \<and> sent_status (fst (events_post Date_parse 1700000000000 None sample_event mockEvents)) = Some 201
   \<and> \<not> list_all (starts_before_end Date_parse)
         (snd (events_post Date_parse 1700000000000 None sample_event mockEvents))
   \<and> sent_status (fst (events_put Date_parse 1700000000000 ''1'' [''end_time'' \<mapsto> JStr ''tbd'']
         mockEvents)) = Some 200
   \<and> \<not> list_all (starts_before_end Date_parse)
         (snd (events_put Date_parse 1700000000000 ''1'' [''end_time'' \<mapsto> JStr ''tbd''] mockEvents))
   \<and> sent_status (fst (events_reschedule Date_parse 1700000000000 ''1''
         [''start_time'' \<mapsto> JStr ''tomorrow morning'', ''end_time'' \<mapsto> JStr ''tbd''] mockEvents))
       = Some 200
   \<and> \<not> list_all (starts_before_end Date_parse)
         (snd (events_reschedule Date_parse 1700000000000 ''1''
            [''start_time'' \<mapsto> JStr ''tomorrow morning'', ''end_time'' \<mapsto> JStr ''tbd''] mockEvents))"
proof (intro conjI)
  show "list_all (starts_before_end Date_parse) mockEvents"
    by (rule mockEvents_ordered)
  show "sent_status (fst (events_post Date_parse 1700000000000 None sample_event mockEvents)) = Some 201"
    by (simp add: events_post_def sample_event_def sent_status_def Date_parse_samples Let_def)
  show "\<not> list_all (starts_before_end Date_parse)
         (snd (events_post Date_parse 1700000000000 None sample_event mockEvents))"
    by (simp add: events_post_def sample_event_def starts_before_end_def Date_parse_samples Let_def)
  show "sent_status (fst (events_put Date_parse 1700000000000 ''1'' [''end_time'' \<mapsto> JStr ''tbd'']
         mockEvents)) = Some 200"
    by (simp add: events_put_def mockEvents_def sent_status_def or_else_def Date_parse_samples Let_def)
  show "\<not> list_all (starts_before_end Date_parse)
         (snd (events_put Date_parse 1700000000000 ''1'' [''end_time'' \<mapsto> JStr ''tbd''] mockEvents))"
    by (simp add: events_put_def mockEvents_def starts_before_end_def or_else_def
        Date_parse_samples Let_def)
  show "sent_status (fst (events_reschedule Date_parse 1700000000000 ''1''
         [''start_time'' \<mapsto> JStr ''tomorrow morning'', ''end_time'' \<mapsto> JStr ''tbd''] mockEvents))
       = Some 200"
    by (simp add: events_reschedule_def mockEvents_def sent_status_def Date_parse_samples Let_def)
  show "\<not> list_all (starts_before_end Date_parse)
         (snd (events_reschedule Date_parse 1700000000000 ''1''
            [''start_time'' \<mapsto> JStr ''tomorrow morning'', ''end_time'' \<mapsto> JStr ''tbd''] mockEvents))"
    by (simp add: events_reschedule_def mockEvents_def starts_before_end_def
        Date_parse_samples Let_def)
qed

text \<open>
  With times the routes read as dates, the three routes do keep every stored event
  starting before it ends: a creation and a rescheduling whose \<^verbatim>\<open>start_time\<close> and
  \<^verbatim>\<open>end_time\<close> are both readable, and an update in which each of the two is absent or
  readable.
\<close>

theorem events_keep_order:
  "(list_all (starts_before_end parse) events0
      \<and> readable parse (eventData ''start_time'') \<and> readable parse (eventData ''end_time'')
     \<longrightarrow> list_all (starts_before_end parse) (snd (events_post parse now user_id eventData events0)))
   \<and> (list_all (starts_before_end parse) events0
      \<and> (updates ''start_time'' = None \<or> readable parse (updates ''start_time''))
      \<and> (updates ''end_time'' = None \<or> readable parse (updates ''end_time''))
     \<longrightarrow> list_all (starts_before_end parse) (snd (events_put parse now id' updates events0)))
   \<and> (list_all (starts_before_end parse) events0
      \<and> readable parse (body ''start_time'') \<and> readable parse (body ''end_time'')
     \<longrightarrow> list_all (starts_before_end parse) (snd (events_reschedule parse now id' body events0)))"
proof (intro conjI impI)
  assume a: "list_all (starts_before_end parse) events0
      \<and> readable parse (eventData ''start_time'') \<and> readable parse (eventData ''end_time'')"
  show "list_all (starts_before_end parse) (snd (events_post parse now user_id eventData events0))"
  proof (cases "date_ge (new_Date parse (eventData ''start_time'')) (new_Date parse (eventData ''end_time''))")
    case True
    with a show ?thesis by (simp add: events_post_def)
  next
    case False
    with a have "date_lt (new_Date parse (eventData ''start_time'')) (new_Date parse (eventData ''end_time''))"
      by (simp add: readable_def date_lt_if_not_ge)
    with a False show ?thesis
      by (simp add: events_post_def Let_def starts_before_end_def)
  qed
next
  assume a: "list_all (starts_before_end parse) events0
      \<and> (updates ''start_time'' = None \<or> readable parse (updates ''start_time''))
      \<and> (updates ''end_time'' = None \<or> readable parse (updates ''end_time''))"
  let ?P = "\<lambda>e. strict_eq (e ''id'') (Some (JStr id'))"
  show "list_all (starts_before_end parse) (snd (events_put parse now id' updates events0))"
  proof (cases "findIndex ?P events0")
    case None
    with a show ?thesis by (simp add: events_put_def)
  next
    case (Some i)
    from findIndex_SomeD [OF Some] have i: "i < length events0" by simp
    with a have old: "starts_before_end parse (events0 ! i)" by (simp add: list_all_length)
    define s where "s = or_else (updates ''start_time'') ((events0 ! i) ''start_time'')"
    define t where "t = or_else (updates ''end_time'') ((events0 ! i) ''end_time'')"
    define updated where "updated = (events0 ! i ++ updates)(''updated_date'' \<mapsto> JStr (toISOString now))"
    have s: "updated ''start_time'' = s" and t: "updated ''end_time'' = t"
      using a by (auto simp: updated_def s_def t_def or_else_def map_add_def readable_def
          split: option.splits)
    have rd: "\<not> Option.is_none (new_Date parse s)" "\<not> Option.is_none (new_Date parse t)"
      using a starts_before_end_readable [OF old]
      by (auto simp: s_def t_def or_else_def readable_def)
    show ?thesis
    proof (cases "truthy (updates ''start_time'') \<or> truthy (updates ''end_time'')")
      case True
      show ?thesis
      proof (cases "date_ge (new_Date parse s) (new_Date parse t)")
        case True
        with \<open>truthy (updates ''start_time'') \<or> truthy (updates ''end_time'')\<close> Some a show ?thesis
          by (simp add: events_put_def s_def t_def)
      next
        case False
        with rd have "starts_before_end parse updated"
          by (simp add: starts_before_end_def s t date_lt_if_not_ge)
        with False Some a show ?thesis
          by (simp add: events_put_def Let_def s_def t_def updated_def list_all_update)
      qed
    next
      case False
      with a have "updates ''start_time'' = None" "updates ''end_time'' = None"
        by (auto simp: readable_def)
      then have "starts_before_end parse updated"
        using old by (simp add: starts_before_end_def updated_def map_add_def)
      with False Some a show ?thesis
        by (simp add: events_put_def Let_def updated_def list_all_update)
    qed
  qed
next
  assume a: "list_all (starts_before_end parse) events0
      \<and> readable parse (body ''start_time'') \<and> readable parse (body ''end_time'')"
  let ?P = "\<lambda>e. strict_eq (e ''id'') (Some (JStr id'))"
  show "list_all (starts_before_end parse) (snd (events_reschedule parse now id' body events0))"
  proof (cases "findIndex ?P events0")
    case None
    with a show ?thesis by (simp add: events_reschedule_def)
  next
    case (Some i)
    show ?thesis
    proof (cases "date_ge (new_Date parse (body ''start_time'')) (new_Date parse (body ''end_time''))")
      case True
      with Some a show ?thesis by (simp add: events_reschedule_def)
    next
      case False
      with a have "date_lt (new_Date parse (body ''start_time'')) (new_Date parse (body ''end_time''))"
        by (simp add: readable_def date_lt_if_not_ge)
      with False Some a show ?thesis
        by (simp add: events_reschedule_def Let_def starts_before_end_def list_all_update)
    qed
  qed
qed

text \<open>The theorem at the mock events, with the second sample event.\<close>

theorem events_keep_order_witness:
  "list_all (starts_before_end Date_parse) mockEvents
   \<and> readable Date_parse (sample_event2 ''start_time'') \<and> readable Date_parse (sample_event2 ''end_time'')
   \<and> list_all (starts_before_end Date_parse)
        (snd (events_post Date_parse 1700000000000 None sample_event2 mockEvents))
   \<and> list_all (starts_before_end Date_parse)
        (snd (events_put Date_parse 1700000000000 ''1''
           [''start_time'' \<mapsto> JStr ''2024-02-15T10:00:00Z''] mockEvents))
   \<and> list_all (starts_before_end Date_parse)
        (snd (events_reschedule Date_parse 1700000000000 ''2'' sample_event2 mockEvents))"
proof -
  have h1: "list_all (starts_before_end Date_parse) mockEvents"
    by (rule mockEvents_ordered)
  have h2: "readable Date_parse (sample_event2 ''start_time'')"
    and h3: "readable Date_parse (sample_event2 ''end_time'')"
    and h4: "readable Date_parse ([''start_time'' \<mapsto> JStr ''2024-02-15T10:00:00Z''] ''start_time'')"
    and h5: "[''start_time'' \<mapsto> JStr ''2024-02-15T10:00:00Z''] ''end_time'' = None"
    by (simp_all add: readable_def sample_event2_def Date_parse_samples)
  from events_keep_order [of Date_parse mockEvents sample_event2 1700000000000 None
      "[''start_time'' \<mapsto> JStr ''2024-02-15T10:00:00Z'']" "''1''" sample_event2]
    events_keep_order [of Date_parse mockEvents sample_event2 1700000000000 None
      "[''start_time'' \<mapsto> JStr ''2024-02-15T10:00:00Z'']" "''2''" sample_event2]
    h1 h2 h3 h4 h5
  show ?thesis by blast
qed

section \<open>Call logs: ending a call twice\<close>

text \<open>
  C10. \<^verbatim>\<open>POST /api/call-logs/:id/end\<close> on a call log whose \<^verbatim>\<open>ended_at\<close> is set (truthy,
  as the route tests it) answers 200 with the stored record and leaves the store as it
  was; and for every store and id, ending the call a second time (at any later clock)
  leaves the store the first call left.
\<close>

theorem callLogs_end_idempotent:
  "(findIndex (\<lambda>c. strict_eq (c ''id'') (Some (JStr id'))) callLogs0 = Some i
      \<and> truthy ((callLogs0 ! i) ''ended_at'')
    \<longrightarrow> callLogs_end parse now id' callLogs0 =
          (Inr \<lparr>res_status = 200,
                res_json = JObj [''success'' \<mapsto> JBool True,
                                 ''data'' \<mapsto> JObj (callLogs0 ! i),
                                 ''message'' \<mapsto> JStr ''Call ended successfully'']\<rparr>,
           callLogs0))
   \<and> snd (callLogs_end parse' now' id' (snd (callLogs_end parse now id' callLogs0)))
       = snd (callLogs_end parse now id' callLogs0)"
proof (intro conjI impI)
  assume "findIndex (\<lambda>c. strict_eq (c ''id'') (Some (JStr id'))) callLogs0 = Some i
      \<and> truthy ((callLogs0 ! i) ''ended_at'')"
  then show "callLogs_end parse now id' callLogs0 =
          (Inr \<lparr>res_status = 200,
                res_json = JObj [''success'' \<mapsto> JBool True,
                                 ''data'' \<mapsto> JObj (callLogs0 ! i),
                                 ''message'' \<mapsto> JStr ''Call ended successfully'']\<rparr>,
           callLogs0)"
    by (simp add: callLogs_end_def Let_def)
next
  let ?P = "\<lambda>c. strict_eq (c ''id'') (Some (JStr id'))"
  show "snd (callLogs_end parse' now' id' (snd (callLogs_end parse now id' callLogs0)))
       = snd (callLogs_end parse now id' callLogs0)"
  proof (cases "findIndex ?P callLogs0")
    case None
    then show ?thesis by (simp add: callLogs_end_def)
  next
    case (Some i)
    from findIndex_SomeD [OF Some] have i: "i < length callLogs0" "?P (callLogs0 ! i)"
      by simp_all
    show ?thesis
    proof (cases "truthy ((callLogs0 ! i) ''ended_at'')")
      case True
      with Some show ?thesis by (simp add: callLogs_end_def Let_def)
    next
      case False
      define ended where "ended = (callLogs0 ! i)
          (''ended_at'' \<mapsto> JStr (toISOString now),
           ''duration'' \<mapsto>
              (case num_minus (Some (int now)) (new_Date parse ((callLogs0 ! i) ''started_at'')) of
                 None \<Rightarrow> JNaN | Some d \<Rightarrow> JNum (d div 1000)),
           ''call_status'' \<mapsto> JStr ''completed'',
           ''updated_date'' \<mapsto> JStr (toISOString now))"
      have first: "snd (callLogs_end parse now id' callLogs0) = callLogs0[i := ended]"
        using Some False by (simp add: callLogs_end_def Let_def ended_def)
      have "?P ended"
        using i(2) by (simp add: ended_def)
      then have again: "findIndex ?P (callLogs0[i := ended]) = Some i"
        using Some by (intro findIndex_update_same)
      have "truthy ((callLogs0[i := ended] ! i) ''ended_at'')"
        using i(1) by (simp add: ended_def toISOString_nonempty)
      with again have "snd (callLogs_end parse' now' id' (callLogs0[i := ended])) = callLogs0[i := ended]"
        by (simp add: callLogs_end_def Let_def)
      with first show ?thesis by simp
    qed
  qed
qed

text \<open>The theorem at the first mock call log, which has ended.\<close>

theorem callLogs_end_idempotent_witness:
  "findIndex (\<lambda>c. strict_eq (c ''id'') (Some (JStr ''1''))) mockCallLogs = Some 0
   \<and> truthy ((mockCallLogs ! 0) ''ended_at'')
   \<and> callLogs_end Date_parse 1700000000000 ''1'' mockCallLogs =
          (Inr \<lparr>res_status = 200,
                res_json = JObj [''success'' \<mapsto> JBool True,
                                 ''data'' \<mapsto> JObj (mockCallLogs ! 0),
                                 ''message'' \<mapsto> JStr ''Call ended successfully'']\<rparr>,
           mockCallLogs)
   \<and> snd (callLogs_end Date_parse 1700000060000 ''1''
         (snd (callLogs_end Date_parse 1700000000000 ''1'' mockCallLogs)))
       = snd (callLogs_end Date_parse 1700000000000 ''1'' mockCallLogs)"
proof -
  have h: "findIndex (\<lambda>c. strict_eq (c ''id'') (Some (JStr ''1''))) mockCallLogs = Some 0
      \<and> truthy ((mockCallLogs ! 0) ''ended_at'')"
    by (simp add: mockCallLogs_def)
  from callLogs_end_idempotent [of "''1''" mockCallLogs 0 Date_parse 1700000000000 Date_parse
      1700000060000] h
  show ?thesis by blast
qed

section \<open>Login with the demo credentials\<close>

text \<open>
  C3. With a bcrypt whose \<^verbatim>\<open>compare\<close> accepts the password against the hash it made of
  it, and a \<^verbatim>\<open>jwt.sign\<close> that returns a non-empty token for the demo user's payload,
  the function of \<^verbatim>\<open>POST /api/auth/login\<close> with \<^verbatim>\<open>demo@caseclerk.ai\<close> and \<^verbatim>\<open>demo123\<close>
  answers 200 with \<^verbatim>\<open>success: true\<close>, an \<^verbatim>\<open>access_token\<close> that is the non-empty token
  \<^verbatim>\<open>jwt.sign\<close> makes of id \<^verbatim>\<open>'1'\<close>, the email and role \<^verbatim>\<open>'attorney'\<close> with the server's
  secret and \<^verbatim>\<open>expiresIn: '24h'\<close>, a \<^verbatim>\<open>refresh_token\<close> that is the token it makes of the id
  and the email with \<^verbatim>\<open>expiresIn: '7d'\<close>, and \<^verbatim>\<open>expires_in\<close> 86400.
\<close>

theorem auth_login_demo:
  assumes "bcrypt_compare lib ''demo123'' (bcrypt_hash lib ''demo123'' 10)"
    and "jwt_sign lib [''id'' \<mapsto> JStr ''1'', ''email'' \<mapsto> JStr ''demo@caseclerk.ai'',
           ''role'' \<mapsto> JStr ''attorney''] (JWT_SECRET env) ''24h'' \<noteq> []"
  shows "auth_login lib env demo_login =
        Inr \<lparr>res_status = 200,
             res_json = JObj
               [''success'' \<mapsto> JBool True,
                ''data'' \<mapsto> JObj
                  [''user'' \<mapsto> JObj [''id'' \<mapsto> JStr ''1'', ''email'' \<mapsto> JStr ''demo@caseclerk.ai'',
                                   ''full_name'' \<mapsto> JStr ''Demo User'', ''role'' \<mapsto> JStr ''attorney'',
                                   ''onboarding_completed'' \<mapsto> JBool True],
                   ''access_token'' \<mapsto> JStr (jwt_sign lib
                      [''id'' \<mapsto> JStr ''1'', ''email'' \<mapsto> JStr ''demo@caseclerk.ai'',
                       ''role'' \<mapsto> JStr ''attorney'']
                      (case env of
                         None \<Rightarrow> ''your-secret-key-change-in-production''
                       | Some k \<Rightarrow> if k = [] then ''your-secret-key-change-in-production'' else k)
                      ''24h''),
                   ''refresh_token'' \<mapsto> JStr (jwt_sign lib
                      [''id'' \<mapsto> JStr ''1'', ''email'' \<mapsto> JStr ''demo@caseclerk.ai'']
                      (case env of
                         None \<Rightarrow> ''your-secret-key-change-in-production''
                       | Some k \<Rightarrow> if k = [] then ''your-secret-key-change-in-production'' else k)
                      ''7d''),
                   ''expires_in'' \<mapsto> JNum 86400]]\<rparr>
      \<and> data_field ''access_token'' (auth_login lib env demo_login) \<noteq> Some (JStr [])"
proof -
  have login: "auth_login lib env demo_login =
        Inr \<lparr>res_status = 200,
             res_json = JObj
               [''success'' \<mapsto> JBool True,
                ''data'' \<mapsto> JObj
                  [''user'' \<mapsto> JObj [''id'' \<mapsto> JStr ''1'', ''email'' \<mapsto> JStr ''demo@caseclerk.ai'',
                                   ''full_name'' \<mapsto> JStr ''Demo User'', ''role'' \<mapsto> JStr ''attorney'',
                                   ''onboarding_completed'' \<mapsto> JBool True],
                   ''access_token'' \<mapsto> JStr (jwt_sign lib
                      [''id'' \<mapsto> JStr ''1'', ''email'' \<mapsto> JStr ''demo@caseclerk.ai'',
                       ''role'' \<mapsto> JStr ''attorney''] (JWT_SECRET env) ''24h''),
                   ''refresh_token'' \<mapsto> JStr (jwt_sign lib
                      [''id'' \<mapsto> JStr ''1'', ''email'' \<mapsto> JStr ''demo@caseclerk.ai'']
                      (JWT_SECRET env) ''7d''),
                   ''expires_in'' \<mapsto> JNum 86400]]\<rparr>"
    using assms(1)
    by (simp add: auth_login_def login_try_def mockUsers_def generateToken_def
        generateRefreshToken_def demo_login_def Let_def)
  have "data_field ''access_token'' (auth_login lib env demo_login) \<noteq> Some (JStr [])"
    using assms(2) unfolding login by (simp add: data_field_def)
  with login show ?thesis
    by (simp add: JWT_SECRET_def)
qed

text \<open>
  The theorem with the stand-in libraries and no \<^verbatim>\<open>JWT_SECRET\<close> in the environment: the
  two tokens are the ones the stand-in signs with the default secret.
\<close>

theorem auth_login_demo_witness:
  "bcrypt_compare toy_lib ''demo123'' (bcrypt_hash toy_lib ''demo123'' 10)
   \<and> jwt_sign toy_lib [''id'' \<mapsto> JStr ''1'', ''email'' \<mapsto> JStr ''demo@caseclerk.ai'',
           ''role'' \<mapsto> JStr ''attorney''] (JWT_SECRET None) ''24h'' \<noteq> []
   \<and> sent_status (auth_login toy_lib None demo_login) = Some 200
   \<and> data_field ''access_token'' (auth_login toy_lib None demo_login)
       = Some (JStr ''jwt.1.attorney.24h.your-secret-key-change-in-production'')
   \<and> data_field ''refresh_token'' (auth_login toy_lib None demo_login)
       = Some (JStr ''jwt.1..7d.your-secret-key-change-in-production'')
   \<and> data_field ''expires_in'' (auth_login toy_lib None demo_login) = Some (JNum 86400)"
proof -
  have h1: "bcrypt_compare toy_lib ''demo123'' (bcrypt_hash toy_lib ''demo123'' 10)"
    by (simp add: toy_lib_def string_of_nat.simps)
  have h2: "jwt_sign toy_lib [''id'' \<mapsto> JStr ''1'', ''email'' \<mapsto> JStr ''demo@caseclerk.ai'',
           ''role'' \<mapsto> JStr ''attorney''] (JWT_SECRET None) ''24h'' \<noteq> []"
    by (simp add: toy_lib_def)
  have t: "jwt_sign toy_lib [''id'' \<mapsto> JStr ''1'', ''email'' \<mapsto> JStr ''demo@caseclerk.ai'',
           ''role'' \<mapsto> JStr ''attorney''] ''your-secret-key-change-in-production'' ''24h''
          = ''jwt.1.attorney.24h.your-secret-key-change-in-production''"
    and r: "jwt_sign toy_lib [''id'' \<mapsto> JStr ''1'', ''email'' \<mapsto> JStr ''demo@caseclerk.ai'']
           ''your-secret-key-change-in-production'' ''7d''
          = ''jwt.1..7d.your-secret-key-change-in-production''"
    by (simp_all add: toy_lib_def)
  from auth_login_demo [OF h1 h2] h1 h2 t r show ?thesis
    by (simp add: data_field_def sent_status_def)
qed

section \<open>Uploads: size limit and file filter\<close>

text \<open>
  C5. An upload to \<^verbatim>\<open>POST /api/documents/upload\<close> of a file longer than
  \<^verbatim>\<open>50 * 1024 * 1024\<close> bytes, or of a MIME type outside the list, ends in an error (which
  \<^verbatim>\<open>errorHandler\<close> answers with status 500) and adds no document to the store. The
  error is multer's \<^verbatim>\<open>LIMIT_FILE_SIZE\<close> for a file of a listed type that is too long,
  and the file filter's \<^verbatim>\<open>File type not supported\<close> for a type outside the list.
\<close>

theorem documents_upload_rejects:
  "(size' file > 50 * 1024 * 1024 \<or> mimetype file \<notin> set allowedTypes
      \<longrightarrow> (\<exists>e. documents_upload_route now rnd user_id (Some file) body documents0 = (Inl e, documents0)
               \<and> res_status (errorHandler NODE_ENV now url e) = 500))
   \<and> (fieldname file1 = ''file'' \<and> mimetype file1 \<in> set allowedTypes \<and> size' file1 > 50 * 1024 * 1024
      \<longrightarrow> documents_upload_route now rnd user_id (Some file1) body documents0
           = (Inl (MulterError ''LIMIT_FILE_SIZE'' ''File too large''), documents0))
   \<and> (fieldname file2 = ''file'' \<and> mimetype file2 \<notin> set allowedTypes
      \<longrightarrow> documents_upload_route now rnd user_id (Some file2) body documents0
           = (Inl (Error ''File type not supported''), documents0))"
proof (intro conjI impI)
  assume "size' file > 50 * 1024 * 1024 \<or> mimetype file \<notin> set allowedTypes"
  then have "\<exists>e. multer_single ''file'' fileSize fileFilter (storage_filename now rnd) (Some file) = Inl e
       \<and> err_statusCode e = None
       \<and> err_name e \<in> {''Error'', ''MulterError''}"
    by (auto simp: multer_single_def fileSize_def fileFilter_def MulterError_def Error_def)
  then obtain e where e: "multer_single ''file'' fileSize fileFilter (storage_filename now rnd) (Some file) = Inl e"
    "err_statusCode e = None" "err_name e \<in> {''Error'', ''MulterError''}"
    by blast
  from e(2,3) have "res_status (errorHandler NODE_ENV now url e) = 500"
    by (auto simp: errorHandler_def Let_def)
  with e(1) show "\<exists>e. documents_upload_route now rnd user_id (Some file) body documents0 = (Inl e, documents0)
               \<and> res_status (errorHandler NODE_ENV now url e) = 500"
    by (simp add: documents_upload_route_def)
next
  assume "fieldname file1 = ''file'' \<and> mimetype file1 \<in> set allowedTypes \<and> size' file1 > 50 * 1024 * 1024"
  then show "documents_upload_route now rnd user_id (Some file1) body documents0
           = (Inl (MulterError ''LIMIT_FILE_SIZE'' ''File too large''), documents0)"
    by (simp add: documents_upload_route_def multer_single_def fileSize_def fileFilter_def)
next
  assume "fieldname file2 = ''file'' \<and> mimetype file2 \<notin> set allowedTypes"
  then show "documents_upload_route now rnd user_id (Some file2) body documents0
           = (Inl (Error ''File type not supported''), documents0)"
    by (simp add: documents_upload_route_def multer_single_def fileFilter_def)
qed

text \<open>The theorem at the two sample uploads.\<close>

theorem documents_upload_rejects_witness:
  "size' big_pdf > 50 * 1024 * 1024
   \<and> (\<exists>e. documents_upload_route 1700000000000 7 None (Some big_pdf) Map.empty mockDocuments
            = (Inl e, mockDocuments)
          \<and> res_status (errorHandler None 1700000000000 ''/upload'' e) = 500)
   \<and> fieldname big_pdf = ''file'' \<and> mimetype big_pdf \<in> set allowedTypes
   \<and> documents_upload_route 1700000000000 7 None (Some big_pdf) Map.empty mockDocuments
       = (Inl (MulterError ''LIMIT_FILE_SIZE'' ''File too large''), mockDocuments)
   \<and> fieldname zip_file = ''file'' \<and> mimetype zip_file \<notin> set allowedTypes
   \<and> documents_upload_route 1700000000000 7 None (Some zip_file) Map.empty mockDocuments
       = (Inl (Error ''File type not supported''), mockDocuments)"
proof -
  have h1: "size' big_pdf > 50 * 1024 * 1024"
    and h2: "fieldname big_pdf = ''file'' \<and> mimetype big_pdf \<in> set allowedTypes"
    and h3: "fieldname zip_file = ''file'' \<and> mimetype zip_file \<notin> set allowedTypes"
    by (simp_all add: big_pdf_def zip_file_def allowedTypes_def)
  from documents_upload_rejects [of big_pdf 1700000000000 7 None "Map.empty" mockDocuments None
      "''/upload''" big_pdf zip_file] h1 h2 h3
  show ?thesis by blast
qed

section \<open>The error envelope\<close>

text \<open>
  C6 (as amended). Every response \<^verbatim>\<open>errorHandler\<close> sends, so every answer to an error a
  route's function throws, has the envelope \<^verbatim>\<open>{success: false, error: {code, message}}\<close>.
  The rate limiter's 429, the authentication middleware's 401 and 500 and the 404 for an
  unmatched route are sent by those functions themselves, as
  \<^verbatim>\<open>{success: false, message: ...}\<close> without an \<^verbatim>\<open>error\<close> object.
\<close>

theorem errorHandler_envelope:
  "has_envelope (res_json (errorHandler NODE_ENV now url error))
   \<and> fst (asyncHandler NODE_ENV now url (Inl error, store)) = errorHandler NODE_ENV now url error
   \<and> (fst (rateLimiter ip path now limits) = Send r
        \<longrightarrow> res_status r = 429 \<and> plain_failure (res_json r))
   \<and> (authMiddleware lib env now authorization = Send r'
        \<longrightarrow> res_status r' \<in> {401, 500} \<and> plain_failure (res_json r'))
   \<and> res_status (route_not_found originalUrl) = 404
   \<and> plain_failure (res_json (route_not_found originalUrl))"
proof (intro conjI impI)
  show "has_envelope (res_json (errorHandler NODE_ENV now url error))"
    by (simp add: errorHandler_def Let_def Option.is_none_def)
  show "fst (asyncHandler NODE_ENV now url (Inl error, store)) = errorHandler NODE_ENV now url error"
    by (simp add: asyncHandler_def)
  show "res_status (route_not_found originalUrl) = 404"
    and "plain_failure (res_json (route_not_found originalUrl))"
    by (simp_all add: route_not_found_def)
next
  assume "fst (rateLimiter ip path now limits) = Send r"
  then show "res_status r = 429" and "plain_failure (res_json r)"
    by (auto simp: rateLimiter_def Let_def split: option.splits if_splits prod.splits)
next
  assume "authMiddleware lib env now authorization = Send r'"
  then show "res_status r' \<in> {401, 500}" and "plain_failure (res_json r')"
    by (auto simp: authMiddleware_def split: option.splits if_splits jwt_outcome.splits)
qed

text \<open>The theorem at a sixth login within the window, and at a request without a token.\<close>

theorem errorHandler_envelope_witness:
  "fst (rateLimiter (Some ''10.0.0.7'') ''/auth/login'' 1700000000000
         [''10.0.0.7:/auth/login'' \<mapsto> \<lparr>count' = 5, resetTime = 1700000600000\<rparr>])
     = Send \<lparr>res_status = 429,
             res_json = JObj [''success'' \<mapsto> JBool False, ''message'' \<mapsto> JStr ''Too many requests'',
                              ''retryAfter'' \<mapsto> JNum 600]\<rparr>
   \<and> plain_failure (JObj [''success'' \<mapsto> JBool False, ''message'' \<mapsto> JStr ''Too many requests'',
                              ''retryAfter'' \<mapsto> JNum 600])
   \<and> authMiddleware toy_lib None 1700000000000 None
     = Send \<lparr>res_status = 401,
             res_json = JObj [''success'' \<mapsto> JBool False, ''message'' \<mapsto> JStr ''Access token required'']\<rparr>
   \<and> plain_failure (JObj [''success'' \<mapsto> JBool False, ''message'' \<mapsto> JStr ''Access token required''])
   \<and> has_envelope (res_json (errorHandler None 1700000000000 ''/cases/9''
        (apiError ''Case not found'' 404 ''CASE_NOT_FOUND'')))"
proof -
  have h1: "fst (rateLimiter (Some ''10.0.0.7'') ''/auth/login'' 1700000000000
         [''10.0.0.7:/auth/login'' \<mapsto> \<lparr>count' = 5, resetTime = 1700000600000\<rparr>])
     = Send \<lparr>res_status = 429,
             res_json = JObj [''success'' \<mapsto> JBool False, ''message'' \<mapsto> JStr ''Too many requests'',
                              ''retryAfter'' \<mapsto> JNum 600]\<rparr>"
    by (simp add: rateLimiter_def Let_def)
  have h2: "authMiddleware toy_lib None 1700000000000 None
     = Send \<lparr>res_status = 401,
             res_json = JObj [''success'' \<mapsto> JBool False, ''message'' \<mapsto> JStr ''Access token required'']\<rparr>"
    by (simp add: authMiddleware_def)
  from errorHandler_envelope [of None 1700000000000 "''/cases/9''"
      "apiError ''Case not found'' 404 ''CASE_NOT_FOUND''" "()" "Some ''10.0.0.7''" "''/auth/login''"
      "[''10.0.0.7:/auth/login'' \<mapsto> \<lparr>count' = 5, resetTime = 1700000600000\<rparr>]"
      "\<lparr>res_status = 429,
             res_json = JObj [''success'' \<mapsto> JBool False, ''message'' \<mapsto> JStr ''Too many requests'',
                              ''retryAfter'' \<mapsto> JNum 600]\<rparr>"
      toy_lib None None
      "\<lparr>res_status = 401,
             res_json = JObj [''success'' \<mapsto> JBool False, ''message'' \<mapsto> JStr ''Access token required'']\<rparr>"]
    h1 h2
  show ?thesis by simp
qed

text \<open>
  C6 as stated fails: the sixth login of a client within fifteen minutes is answered by
  the rate limiter with 429 and a body that has no \<^verbatim>\<open>error\<close> object.
\<close>

theorem rateLimiter_429_no_envelope:
  "fst (rateLimiter (Some ''10.0.0.7'') ''/auth/login'' 1700000000000
         [''10.0.0.7:/auth/login'' \<mapsto> \<lparr>count' = 5, resetTime = 1700000600000\<rparr>])
     = Send \<lparr>res_status = 429,
             res_json = JObj [''success'' \<mapsto> JBool False, ''message'' \<mapsto> JStr ''Too many requests'',
                              ''retryAfter'' \<mapsto> JNum 600]\<rparr>
   \<and> \<not> has_envelope (JObj [''success'' \<mapsto> JBool False, ''message'' \<mapsto> JStr ''Too many requests'',
                              ''retryAfter'' \<mapsto> JNum 600])"
  by (simp add: rateLimiter_def Let_def)

end
